theory Spec2Isabelle
  imports Complex_Main
begin

section \<open>JavaScript values, exceptions and effects\<close>

text \<open>
  The handlers of the dashboard work on untyped JSON: a response body is whatever
  \<^verbatim>\<open>res.json()\<close> resolves to, and the TypeScript casts (\<^verbatim>\<open>as any\<close>) check nothing at
  run time. A value is therefore a \<open>js\<close>: \<open>JUndefined\<close> is what reading a missing
  property gives, a number is the real number the double stands for (a parsed JSON number
  is never NaN or infinite), and an object is the list of its own properties.
\<close>

datatype js =
    JUndefined
  | JNull
  | JBool bool
  | JNum real
  | JStr string
  | JArr "js list"
  | JObj "(string \<times> js) list"

text \<open>
  A thrown value: the error's constructor name, its message and, for the errors of the
  \<^verbatim>\<open>jose\<close> library, its \<^verbatim>\<open>code\<close> property.
\<close>

datatype exn = Exn (exn_name: string) (message: string) (code: "string option")

text \<open>Reading a property of \<^verbatim>\<open>null\<close> or \<^verbatim>\<open>undefined\<close> throws a TypeError.\<close>

definition TypeError_read :: "string \<Rightarrow> string \<Rightarrow> exn" where
  "TypeError_read what k =
     Exn ''TypeError'' (''Cannot read properties of '' @ what @ '' (reading '' @ [CHR 39] @ k @ [CHR 39] @ '')'') None"

text \<open>
  \<^verbatim>\<open>v.k\<close> for the property names this program reads (\<^verbatim>\<open>user\<close>, \<^verbatim>\<open>role\<close>,
  \<^verbatim>\<open>accessToken\<close>, \<^verbatim>\<open>refreshToken\<close>, \<^verbatim>\<open>message\<close>, \<^verbatim>\<open>id\<close>, ...): none of them is a
  property of a string, number, boolean or array, so only an object can have one.
\<close>

fun get_prop :: "js \<Rightarrow> string \<Rightarrow> exn + js" where
  "get_prop JUndefined k = Inl (TypeError_read ''undefined'' k)"
| "get_prop JNull k = Inl (TypeError_read ''null'' k)"
| "get_prop (JObj kvs) k = Inr (case map_of kvs k of None \<Rightarrow> JUndefined | Some v \<Rightarrow> v)"
| "get_prop _ k = Inr JUndefined"

text \<open>\<^verbatim>\<open>v?.k\<close>: \<^verbatim>\<open>undefined\<close> when \<^verbatim>\<open>v\<close> is \<^verbatim>\<open>null\<close> or \<^verbatim>\<open>undefined\<close>.\<close>

fun opt_chain :: "js \<Rightarrow> string \<Rightarrow> exn + js" where
  "opt_chain JUndefined k = Inr JUndefined"
| "opt_chain JNull k = Inr JUndefined"
| "opt_chain v k = get_prop v k"

text \<open>\<^verbatim>\<open>if (v)\<close>: the falsy values are \<^verbatim>\<open>undefined\<close>, \<^verbatim>\<open>null\<close>, \<^verbatim>\<open>false\<close>, \<^verbatim>\<open>0\<close> and \<^verbatim>\<open>""\<close>.\<close>

fun truthy :: "js \<Rightarrow> bool" where
  "truthy JUndefined = False"
| "truthy JNull = False"
| "truthy (JBool b) = b"
| "truthy (JNum x) = (x \<noteq> 0)"
| "truthy (JStr s) = (s \<noteq> [])"
| "truthy (JArr _) = True"
| "truthy (JObj _) = True"

text \<open>
  \<^verbatim>\<open>process.env.X || d\<close> and \<^verbatim>\<open>cookie?.value\<close> are strings or \<^verbatim>\<open>undefined\<close>: a
  \<open>string option\<close>, falsy when \<open>None\<close> or empty.
\<close>

definition or_default :: "string option \<Rightarrow> string \<Rightarrow> string" where
  "or_default v d = (case v of None \<Rightarrow> d | Some s \<Rightarrow> if s = [] then d else s)"

record fetch_request =
  url :: string
  req_method :: string
  headers :: "(string \<times> string) list"
  body :: "js option"  \<comment> \<open>the argument of \<^verbatim>\<open>JSON.stringify\<close>, when a body is sent\<close>

record fetch_response =
  status :: nat
  res_json :: "exn + js"  \<comment> \<open>what \<^verbatim>\<open>res.json()\<close> settles to\<close>

text \<open>\<^verbatim>\<open>res.ok\<close> of the Fetch standard: the status is in the range 200 to 299.\<close>

definition ok :: "fetch_response \<Rightarrow> bool" where
  "ok r = (200 \<le> status r \<and> status r \<le> 299)"

text \<open>
  The toasts of the client components, named by what they announce (their texts are Thai):
  login succeeded, login failed, verification list refreshed (with the count shown),
  verification list failed to load and verification details failed to load (with the error
  shown).
\<close>

datatype toast =
    ToastLoginOk
  | ToastLoginFailed
  | ToastRefreshed nat
  | ToastLoadFailed exn
  | ToastDetailsFailed exn

datatype effect =
    CookieGet string
  | Fetch fetch_request
  | LocalStorageGet string
  | ConsoleWarn string
  | ConsoleError string
  | Toast toast
  | RouterPush string
  | CookieSet string  \<comment> \<open>a cookie written by the code itself, as through \<^verbatim>\<open>document.cookie\<close>\<close>

definition fetch_calls :: "effect list \<Rightarrow> fetch_request list" where
  "fetch_calls es = concat (map (\<lambda>e. case e of Fetch rq \<Rightarrow> [rq] | _ \<Rightarrow> []) es)"

definition cookie_reads :: "effect list \<Rightarrow> string list" where
  "cookie_reads es = concat (map (\<lambda>e. case e of CookieGet n \<Rightarrow> [n] | _ \<Rightarrow> []) es)"

definition cookie_writes :: "effect list \<Rightarrow> string list" where
  "cookie_writes es = concat (map (\<lambda>e. case e of CookieSet n \<Rightarrow> [n] | _ \<Rightarrow> []) es)"

text \<open>
  What lies outside the program: the \<^verbatim>\<open>jose\<close> verifier (token, secret) and the network.
  \<^verbatim>\<open>process.env\<close> is read-only configuration.
\<close>

record world =
  jwtVerify :: "string \<Rightarrow> string \<Rightarrow> exn + (string \<times> js) list"
  fetch :: "fetch_request \<Rightarrow> exn + fetch_response"

record env =
  JWT_SECRET :: "string option"
  NEXT_PUBLIC_API_URL :: "string option"
  NEXT_PUBLIC_API_BASE :: "string option"
  NEXT_PUBLIC_ADMIN_ACCESS_TOKEN :: "string option"
  NODE_ENV :: "string option"

section \<open>Responses and cookies\<close>

record cookie =
  cname :: string
  cvalue :: js  \<comment> \<open>the value handed to \<^verbatim>\<open>cookies.set\<close>\<close>
  httpOnly :: bool
  secure :: bool
  sameSite :: string
  maxAge :: nat
  path :: string

datatype response_kind =
    Redirect string string  \<comment> \<open>\<^verbatim>\<open>NextResponse.redirect(new URL(path, base))\<close>\<close>
  | Next  \<comment> \<open>\<^verbatim>\<open>NextResponse.next()\<close>\<close>
  | Json js  \<comment> \<open>\<^verbatim>\<open>NextResponse.json(body, { status })\<close>\<close>

record response =
  kind :: response_kind
  res_status :: nat
  set_cookies :: "cookie list"

definition NextResponse_redirect :: "string \<Rightarrow> string \<Rightarrow> response" where
  "NextResponse_redirect p base = \<lparr>kind = Redirect p base, res_status = 307, set_cookies = []\<rparr>"

definition NextResponse_next :: response where
  "NextResponse_next = \<lparr>kind = Next, res_status = 200, set_cookies = []\<rparr>"

text \<open>
  What \<^verbatim>\<open>JSON.stringify\<close> keeps of a value: a property whose value is \<^verbatim>\<open>undefined\<close> is
  left out of its object, and an \<^verbatim>\<open>undefined\<close> element of an array becomes \<^verbatim>\<open>null\<close>.
\<close>

fun serialise :: "js \<Rightarrow> js"
  and serialise_props :: "(string \<times> js) list \<Rightarrow> (string \<times> js) list"
  and serialise_items :: "js list \<Rightarrow> js list" where
  "serialise (JObj kvs) = JObj (serialise_props kvs)"
| "serialise (JArr xs) = JArr (serialise_items xs)"
| "serialise v = v"
| "serialise_props [] = []"
| "serialise_props ((k, v) # kvs) =
     (if v = JUndefined then serialise_props kvs else (k, serialise v) # serialise_props kvs)"
| "serialise_items [] = []"
| "serialise_items (x # xs) = (if x = JUndefined then JNull else serialise x) # serialise_items xs"

text \<open>
  \<^verbatim>\<open>NextResponse.json(body, { status })\<close> serialises the body with \<^verbatim>\<open>JSON.stringify\<close> and
  builds a \<^verbatim>\<open>Response\<close>, whose constructor throws a RangeError for a status outside 200 to
  599 and a TypeError for a body with one of the null-body statuses 204, 205 and 304.
\<close>

definition NextResponse_json :: "js \<Rightarrow> nat \<Rightarrow> exn + response" where
  "NextResponse_json b st =
     (if \<not> (200 \<le> st \<and> st \<le> 599)
      then Inl (Exn ''RangeError'' ''The status provided is outside the range [200, 599].'' None)
      else if st = 204 \<or> st = 205 \<or> st = 304
      then Inl (Exn ''TypeError'' ''Response with null body status cannot have body'' None)
      else Inr \<lparr>kind = Json (serialise b), res_status = st, set_cookies = []\<rparr>)"

text \<open>\<^verbatim>\<open>res.cookies.set(name, value, options)\<close>: a cookie of that name is replaced in place.\<close>

fun upsert :: "cookie \<Rightarrow> cookie list \<Rightarrow> cookie list" where
  "upsert c [] = [c]"
| "upsert c (d # ds) = (if cname d = cname c then c # ds else d # upsert c ds)"

definition cookies_set :: "response \<Rightarrow> cookie \<Rightarrow> response" where
  "cookies_set r c = r\<lparr>set_cookies := upsert c (set_cookies r)\<rparr>"

text \<open>The options both the middleware and the login route pass, up to the lifetime.\<close>

definition token_cookie :: "env \<Rightarrow> string \<Rightarrow> js \<Rightarrow> nat \<Rightarrow> cookie" where
  "token_cookie e n v age =
     \<lparr>cname = n, cvalue = v, httpOnly = True, secure = (NODE_ENV e = Some ''production''),
      sameSite = ''lax'', maxAge = age, path = ''/''\<rparr>"

section \<open>Control flow of an async function\<close>

text \<open>
  A block of an \<^verbatim>\<open>async\<close> function completes normally with a value, returns a response
  from the function, or throws; the effects it had are listed in order. A function whose
  body ends in \<open>Throw\<close> rejects its promise: the exception reaches the caller.
\<close>

datatype 'a completion = Normal 'a | Return response | Throw exn

type_synonym 'a io = "'a completion \<times> effect list"

definition io_bind :: "'a io \<Rightarrow> ('a \<Rightarrow> 'b io) \<Rightarrow> 'b io" where
  "io_bind m f =
     (case m of
        (Normal a, es) \<Rightarrow> (case f a of (c, es') \<Rightarrow> (c, es @ es'))
      | (Return r, es) \<Rightarrow> (Return r, es)
      | (Throw e, es) \<Rightarrow> (Throw e, es))"

definition try_catch :: "'a io \<Rightarrow> (exn \<Rightarrow> 'a io) \<Rightarrow> 'a io" where
  "try_catch m h =
     (case m of
        (Throw e, es) \<Rightarrow> (case h e of (c, es') \<Rightarrow> (c, es @ es'))
      | (c, es) \<Rightarrow> (c, es))"

definition lift :: "exn + 'a \<Rightarrow> 'a io" where
  "lift r = (case r of Inl e \<Rightarrow> (Throw e, []) | Inr a \<Rightarrow> (Normal a, []))"

definition ret :: "response \<Rightarrow> 'a io" where
  "ret r = (Return r, [])"

definition skip :: "unit io" where
  "skip = (Normal (), [])"

definition emit :: "effect \<Rightarrow> unit io" where
  "emit e = (Normal (), [e])"

definition await_fetch :: "world \<Rightarrow> fetch_request \<Rightarrow> fetch_response io" where
  "await_fetch w rq = (case fetch w rq of Inl e \<Rightarrow> Throw e | Inr r \<Rightarrow> Normal r, [Fetch rq])"

section \<open>The session guard (middleware)\<close>

record request =
  cookies :: "string \<rightharpoonup> string"
  req_url :: string
  req_json :: "exn + js"  \<comment> \<open>what \<^verbatim>\<open>request.json()\<close> settles to\<close>

definition cookies_get :: "request \<Rightarrow> string \<Rightarrow> (string option) io" where
  "cookies_get req n = (Normal (cookies req n), [CookieGet n])"

definition apiBase :: "env \<Rightarrow> string" where
  "apiBase e = or_default (NEXT_PUBLIC_API_URL e) ''http://localhost:3000''"

definition secret :: "env \<Rightarrow> string" where
  "secret e = or_default (JWT_SECRET e) ''this-is-a-super-secret-key''"

definition login_redirect :: "request \<Rightarrow> response" where
  "login_redirect req = NextResponse_redirect ''/login'' (req_url req)"

text \<open>Lines 16 to 24: the body of the outer \<^verbatim>\<open>try\<close>.\<close>

definition verify_block :: "world \<Rightarrow> env \<Rightarrow> request \<Rightarrow> string \<Rightarrow> unit io" where
  "verify_block w e req accessToken =
     io_bind (lift (jwtVerify w accessToken (secret e))) (\<lambda>payload.
       if (case map_of payload ''role'' of None \<Rightarrow> JUndefined | Some v \<Rightarrow> v) \<noteq> JStr ''admin''
       then ret (login_redirect req)
       else ret NextResponse_next)"

text \<open>Lines 26 to 30: what the \<^verbatim>\<open>catch\<close> logs.\<close>

definition log_verify_error :: "exn \<Rightarrow> unit io" where
  "log_verify_error err =
     (if code err = Some ''ERR_JWS_SIGNATURE_VERIFICATION_FAILED''
      then emit (ConsoleWarn ''JWT signature verification failed; attempting external validation/refresh'')
      else emit (ConsoleError ''JWT Verification Error:''))"

definition me_request :: "env \<Rightarrow> string \<Rightarrow> fetch_request" where
  "me_request e accessToken =
     \<lparr>url = apiBase e @ ''/api/auth/me'', req_method = ''GET'',
      headers = [(''Authorization'', ''Bearer '' @ accessToken)], body = None\<rparr>"

text \<open>Lines 33 to 47: external validation; every failure is logged and falls through.\<close>

definition validate_block :: "world \<Rightarrow> env \<Rightarrow> string \<Rightarrow> unit io" where
  "validate_block w e accessToken =
     try_catch
       (io_bind (await_fetch w (me_request e accessToken)) (\<lambda>validateRes.
          if ok validateRes then
            io_bind (lift (res_json validateRes)) (\<lambda>me.
            io_bind (lift (get_prop me ''user'')) (\<lambda>u.
            io_bind (lift (opt_chain u ''role'')) (\<lambda>role.
              if role = JStr ''admin'' then ret NextResponse_next else skip)))
          else skip))
       (\<lambda>validateError. emit (ConsoleError ''External token validation failed:''))"

definition refresh_request :: "env \<Rightarrow> string \<Rightarrow> fetch_request" where
  "refresh_request e refreshToken =
     \<lparr>url = apiBase e @ ''/api/auth/refresh'', req_method = ''POST'',
      headers = [(''Content-Type'', ''application/json'')],
      body = Some (JObj [(''refreshToken'', JStr refreshToken)])\<rparr>"

text \<open>Lines 50 to 87: the refresh exchange, tried only with a truthy refresh token.\<close>

definition refresh_block :: "world \<Rightarrow> env \<Rightarrow> string option \<Rightarrow> unit io" where
  "refresh_block w e refreshToken =
     (case refreshToken of
        None \<Rightarrow> skip
      | Some rt \<Rightarrow>
          if rt = [] then skip
          else
            try_catch
              (io_bind (await_fetch w (refresh_request e rt)) (\<lambda>refreshResponse.
                 if ok refreshResponse then
                   io_bind (lift (res_json refreshResponse)) (\<lambda>data.
                   let res = NextResponse_next in
                   io_bind (lift (get_prop data ''accessToken'')) (\<lambda>newAccess.
                   let res = (if truthy newAccess
                              then cookies_set res (token_cookie e ''auth_token'' newAccess (60 * 15))
                              else res)
                   in
                   io_bind (lift (get_prop data ''refreshToken'')) (\<lambda>newRefresh.
                   let res = (if truthy newRefresh
                              then cookies_set res (token_cookie e ''refresh_token'' newRefresh (60 * 60 * 24 * 7))
                              else res)
                   in ret res)))
                 else skip))
              (\<lambda>refreshError. emit (ConsoleError ''Refresh token error:'')))"

text \<open>Lines 25 to 90: the \<^verbatim>\<open>catch\<close> of the outer \<^verbatim>\<open>try\<close>.\<close>

definition catch_block :: "world \<Rightarrow> env \<Rightarrow> request \<Rightarrow> string \<Rightarrow> string option \<Rightarrow> exn \<Rightarrow> unit io" where
  "catch_block w e req accessToken refreshToken err =
     io_bind (log_verify_error err) (\<lambda>_.
     io_bind (validate_block w e accessToken) (\<lambda>_.
     io_bind (refresh_block w e refreshToken) (\<lambda>_.
       ret (login_redirect req))))"

definition middleware :: "world \<Rightarrow> env \<Rightarrow> request \<Rightarrow> unit io" where
  "middleware w e req =
     io_bind (cookies_get req ''auth_token'') (\<lambda>accessToken.
     io_bind (cookies_get req ''refresh_token'') (\<lambda>refreshToken.
       case accessToken of
         None \<Rightarrow> ret (login_redirect req)
       | Some tok \<Rightarrow>
           if tok = [] then ret (login_redirect req)
           else try_catch (verify_block w e req tok) (catch_block w e req tok refreshToken)))"

section \<open>The login route handler\<close>

text \<open>
  \<^verbatim>\<open>const { identifier, password, remember } = body\<close> throws a TypeError when the body is
  \<^verbatim>\<open>null\<close> or \<^verbatim>\<open>undefined\<close>, and reads the three properties otherwise.
\<close>

fun destructure :: "js \<Rightarrow> string \<Rightarrow> exn + js" where
  "destructure JUndefined k =
     Inl (Exn ''TypeError'' (''Cannot destructure property '' @ k @ '' as it is undefined.'') None)"
| "destructure JNull k =
     Inl (Exn ''TypeError'' (''Cannot destructure property '' @ k @ '' as it is null.'') None)"
| "destructure v k = get_prop v k"

definition login_request :: "env \<Rightarrow> js \<Rightarrow> js \<Rightarrow> js \<Rightarrow> fetch_request" where
  "login_request e identifier password remember =
     \<lparr>url = apiBase e @ ''/api/auth/login'', req_method = ''POST'',
      headers = [(''Content-Type'', ''application/json'')],
      body = Some (JObj [(''identifier'', identifier), (''password'', password), (''remember'', remember)])\<rparr>"

definition json_return :: "js \<Rightarrow> nat \<Rightarrow> 'a io" where
  "json_return b st = (case NextResponse_json b st of Inl x \<Rightarrow> (Throw x, []) | Inr r \<Rightarrow> (Return r, []))"

text \<open>Lines 7 to 62: the body of the \<^verbatim>\<open>try\<close>.\<close>

definition POST_try :: "world \<Rightarrow> env \<Rightarrow> request \<Rightarrow> unit io" where
  "POST_try w e request =
     io_bind (lift (req_json request)) (\<lambda>body.
     io_bind (lift (destructure body ''identifier'')) (\<lambda>identifier.
     io_bind (lift (destructure body ''password'')) (\<lambda>password.
     io_bind (lift (destructure body ''remember'')) (\<lambda>remember.
     io_bind (await_fetch w (login_request e identifier password remember)) (\<lambda>apiResponse.
     io_bind (lift (res_json apiResponse)) (\<lambda>data.
       if \<not> ok apiResponse then
         io_bind (lift (get_prop data ''message'')) (\<lambda>msg.
           json_return
             (JObj [(''success'', JBool False),
                    (''message'', if truthy msg then msg else JStr ''Invalid credentials'')])
             (status apiResponse))
       else
         io_bind (lift (get_prop data ''user'')) (\<lambda>user.
         io_bind (lift (opt_chain user ''role'')) (\<lambda>role.
           if role \<noteq> JStr ''admin'' then
             json_return
               (JObj [(''success'', JBool False), (''message'', JStr ''Unauthorized: Admin access only'')])
               403
           else
             io_bind (lift (get_prop data ''accessToken'')) (\<lambda>accessToken.
             io_bind (lift (get_prop data ''refreshToken'')) (\<lambda>refreshToken.
             io_bind (lift (NextResponse_json
                        (JObj [(''success'', JBool True), (''user'', user),
                               (''accessToken'', accessToken), (''refreshToken'', refreshToken)])
                        200)) (\<lambda>response.
             let response = cookies_set response (token_cookie e ''auth_token'' accessToken (60 * 15));
                 response = cookies_set response
                              (token_cookie e ''refresh_token'' refreshToken (60 * 60 * 24 * 7))
             in ret response)))))))))))"

definition POST :: "world \<Rightarrow> env \<Rightarrow> request \<Rightarrow> unit io" where
  "POST w e request =
     try_catch (POST_try w e request)
       (\<lambda>error.
          io_bind (emit (ConsoleError ''Login error:'')) (\<lambda>_.
            json_return (JObj [(''success'', JBool False), (''message'', JStr ''Internal server error'')]) 500))"

section \<open>The login page\<close>

datatype error_text = NoError | InvalidCredentials

record login_state =
  email :: string
  password :: string
  remember :: bool
  error :: error_text

definition page_login_request :: "login_state \<Rightarrow> fetch_request" where
  "page_login_request s =
     \<lparr>url = ''/api/auth/login'', req_method = ''POST'',
      headers = [(''Content-Type'', ''application/json'')],
      body = Some (JObj [(''identifier'', JStr (email s)), (''password'', JStr (password s)),
                         (''remember'', JBool (remember s))])\<rparr>"

text \<open>
  \<^verbatim>\<open>handleLogin\<close> has no \<^verbatim>\<open>try\<close>: a rejected fetch rejects the handler, after the error
  text was cleared.
\<close>

definition handleLogin :: "world \<Rightarrow> login_state \<Rightarrow> login_state \<times> unit io" where
  "handleLogin w s =
     (let s1 = s\<lparr>error := NoError\<rparr> in
      case fetch w (page_login_request s) of
        Inl x \<Rightarrow> (s1, (Throw x, [Fetch (page_login_request s)]))
      | Inr response \<Rightarrow>
          if ok response
          then (s1, (Normal (), [Fetch (page_login_request s), Toast ToastLoginOk, RouterPush ''/'']))
          else (s1\<lparr>error := InvalidCredentials\<rparr>,
                (Normal (), [Fetch (page_login_request s), Toast ToastLoginFailed])))"

section \<open>The help-requests view\<close>

record browser =
  window_defined :: bool
  localStorage :: "string \<rightharpoonup> string"

text \<open>
  \<^verbatim>\<open>typeof window !== 'undefined' ? localStorage.getItem('accessToken') || ADMIN_TOKEN : undefined\<close>
\<close>

definition client_token :: "env \<Rightarrow> browser \<Rightarrow> (string option) io" where
  "client_token e b =
     (if window_defined b
      then (Normal (case localStorage b ''accessToken'' of
                      None \<Rightarrow> NEXT_PUBLIC_ADMIN_ACCESS_TOKEN e
                    | Some t \<Rightarrow> if t = [] then NEXT_PUBLIC_ADMIN_ACCESS_TOKEN e else Some t),
            [LocalStorageGet ''accessToken''])
      else (Normal None, []))"

text \<open>\<^verbatim>\<open>{ headers: token ? { Authorization: `Bearer ${token}` } : undefined }\<close>\<close>

definition bearer_get :: "string \<Rightarrow> string option \<Rightarrow> fetch_request" where
  "bearer_get u token =
     \<lparr>url = u, req_method = ''GET'',
      headers = (case token of
                   None \<Rightarrow> []
                 | Some t \<Rightarrow> if t = [] then [] else [(''Authorization'', ''Bearer '' @ t)]),
      body = None\<rparr>"

definition client_base :: "env \<Rightarrow> string" where
  "client_base e = or_default (NEXT_PUBLIC_API_BASE e) (or_default (NEXT_PUBLIC_API_URL e) [])"

function string_of_nat :: "nat \<Rightarrow> string" where
  "string_of_nat n =
     (if n < 10 then [char_of (48 + n)]
      else string_of_nat (n div 10) @ [char_of (48 + n mod 10)])"
  by pat_completeness auto
termination
  by (relation "measure id") auto

definition Error :: "string \<Rightarrow> exn" where
  "Error msg = Exn ''Error'' msg None"

text \<open>\<^verbatim>\<open>Array.isArray(v) ? v : []\<close>\<close>

fun array_or_empty :: "js \<Rightarrow> js list" where
  "array_or_empty (JArr xs) = xs"
| "array_or_empty _ = []"

text \<open>\<^verbatim>\<open>xs.map((a) => a.k)\<close>: the first element that is \<^verbatim>\<open>null\<close> throws.\<close>

fun map_prop :: "string \<Rightarrow> js list \<Rightarrow> exn + js list" where
  "map_prop k [] = Inr []"
| "map_prop k (x # xs) =
     (case get_prop x k of
        Inl err \<Rightarrow> Inl err
      | Inr v \<Rightarrow> (case map_prop k xs of Inl err \<Rightarrow> Inl err | Inr vs \<Rightarrow> Inr (v # vs)))"

text \<open>
  \<^verbatim>\<open>Set.prototype.has\<close> compares with SameValueZero: primitives by value, objects and
  arrays by identity. The ids come out of two different parsed documents, so an object or
  an array among them is never the one in the set.
\<close>

fun same_value_zero :: "js \<Rightarrow> js \<Rightarrow> bool" where
  "same_value_zero (JArr _) _ = False"
| "same_value_zero (JObj _) _ = False"
| "same_value_zero x y = (x = y)"

definition set_has :: "js list \<Rightarrow> js \<Rightarrow> bool" where
  "set_has ids v = list_ex (\<lambda>x. same_value_zero x v) ids"

text \<open>\<^verbatim>\<open>fetchedJobs.filter((j) => !appliedJobIds.has(j.id))\<close>\<close>

fun filter_jobs :: "js list \<Rightarrow> js list \<Rightarrow> exn + js list" where
  "filter_jobs appliedJobIds [] = Inr []"
| "filter_jobs appliedJobIds (j # js) =
     (case get_prop j ''id'' of
        Inl err \<Rightarrow> Inl err
      | Inr i \<Rightarrow>
          (case filter_jobs appliedJobIds js of
             Inl err \<Rightarrow> Inl err
           | Inr rest \<Rightarrow> Inr (if \<not> set_has appliedJobIds i then j # rest else rest)))"

text \<open>
  \<^verbatim>\<open>Promise.all\<close> of the two fetches: both are started; it rejects with the rejection that
  comes first, which \<open>appsFirst\<close> decides when both reject.
\<close>

definition fetch_both ::
  "world \<Rightarrow> bool \<Rightarrow> fetch_request \<Rightarrow> fetch_request \<Rightarrow> (fetch_response \<times> fetch_response) io" where
  "fetch_both w appsFirst jobsRq appsRq =
     (case (fetch w jobsRq, fetch w appsRq) of
        (Inr jobsRes, Inr appsRes) \<Rightarrow> Normal (jobsRes, appsRes)
      | (Inl x, Inr _) \<Rightarrow> Throw x
      | (Inr _, Inl y) \<Rightarrow> Throw y
      | (Inl x, Inl y) \<Rightarrow> Throw (if appsFirst then y else x),
      [Fetch jobsRq, Fetch appsRq])"

definition throw :: "exn \<Rightarrow> 'a io" where
  "throw x = (Throw x, [])"

text \<open>
  Lines 159 to 184 of the view: the token, the two fetches and the filtered jobs, up to
  the state updates; what it throws is what the \<^verbatim>\<open>catch\<close> of \<^verbatim>\<open>fetchAll\<close> receives.
\<close>

definition fetchAll_try :: "world \<Rightarrow> env \<Rightarrow> browser \<Rightarrow> bool \<Rightarrow> (js list \<times> js list) io" where
  "fetchAll_try w e b appsFirst =
     io_bind (client_token e b) (\<lambda>token.
     io_bind (fetch_both w appsFirst
                (bearer_get (client_base e @ ''/api/admin/jobs'') token)
                (bearer_get (client_base e @ ''/api/jobapp'') token)) (\<lambda>(jobsRes, appsRes).
       if \<not> ok jobsRes then throw (Error (''Jobs HTTP '' @ string_of_nat (status jobsRes)))
       else if \<not> ok appsRes then throw (Error (''Applications HTTP '' @ string_of_nat (status appsRes)))
       else
         io_bind (lift (res_json jobsRes)) (\<lambda>jobsData.
         io_bind (lift (res_json appsRes)) (\<lambda>appsData.
         io_bind (lift (get_prop jobsData ''jobs'')) (\<lambda>jobsField.
         io_bind (lift (get_prop appsData ''applications'')) (\<lambda>appsField.
         let fetchedJobs = array_or_empty jobsField;
             fetchedApps = array_or_empty appsField
         in
         io_bind (lift (map_prop ''job_id'' fetchedApps)) (\<lambda>appliedJobIds.
         io_bind (lift (filter_jobs appliedJobIds fetchedJobs)) (\<lambda>filteredJobs.
           (Normal (filteredJobs, fetchedApps), [])))))))))"

record jobs_state =
  jobs :: "js list"
  isLoadingJobs :: bool
  jobsError :: "string option"
  applications :: "js list"
  isLoadingApps :: bool
  appsError :: "string option"

text \<open>
  \<^verbatim>\<open>fetchAll\<close>, run once by the effect hook. \<open>mounted\<close> is the flag as the awaits find it:
  the cleanup of the hook clears it, and then no state is written.
\<close>

definition fetchAll ::
  "world \<Rightarrow> env \<Rightarrow> browser \<Rightarrow> bool \<Rightarrow> bool \<Rightarrow> jobs_state \<Rightarrow> jobs_state \<times> effect list" where
  "fetchAll w e b appsFirst mounted s =
     (let s1 = s\<lparr>isLoadingJobs := True, jobsError := None, isLoadingApps := True, appsError := None\<rparr>;
          (c, es) = fetchAll_try w e b appsFirst;
          s2 = (case c of
                  Normal (filteredJobs, fetchedApps) \<Rightarrow>
                    if mounted then s1\<lparr>jobs := filteredJobs, applications := fetchedApps\<rparr> else s1
                | Throw err \<Rightarrow>
                    if mounted
                    then s1\<lparr>jobsError := Some (message err), appsError := Some (message err)\<rparr>
                    else s1
                | Return _ \<Rightarrow> s1);
          s3 = (if mounted then s2\<lparr>isLoadingJobs := False, isLoadingApps := False\<rparr> else s2)
      in (s3, es))"

text \<open>
  \<^verbatim>\<open>loadSkilledUsers(jobId)\<close>; \<open>jobId\<close> is the id as the template literal of the URL
  renders it.
\<close>

record skilled_state =
  skilledUsers :: "js list"
  isFetchingSkilledUsers :: bool
  selectedSkilledUserId :: "js"

definition loadSkilledUsers_try :: "world \<Rightarrow> env \<Rightarrow> browser \<Rightarrow> string \<Rightarrow> (js list) io" where
  "loadSkilledUsers_try w e b jobId =
     io_bind (client_token e b) (\<lambda>token.
     io_bind (await_fetch w
                (bearer_get (client_base e @ ''/api/admin/jobs/'' @ jobId @ ''/skilled-users'') token)) (\<lambda>res.
       if \<not> ok res then throw (Error (''HTTP '' @ string_of_nat (status res)))
       else
         io_bind (lift (res_json res)) (\<lambda>data.
         io_bind (lift (get_prop data ''users'')) (\<lambda>users.
           (Normal (array_or_empty users), [])))))"

definition loadSkilledUsers ::
  "world \<Rightarrow> env \<Rightarrow> browser \<Rightarrow> string \<Rightarrow> skilled_state \<Rightarrow> skilled_state \<times> effect list" where
  "loadSkilledUsers w e b jobId s =
     (let s1 = s\<lparr>isFetchingSkilledUsers := True, selectedSkilledUserId := JNull, skilledUsers := []\<rparr>;
          (c, es) = loadSkilledUsers_try w e b jobId;
          s2 = (case c of
                  Normal users \<Rightarrow> s1\<lparr>skilledUsers := users\<rparr>
                | Throw err \<Rightarrow> s1\<lparr>skilledUsers := []\<rparr>
                | Return _ \<Rightarrow> s1)
      in (s2\<lparr>isFetchingSkilledUsers := False\<rparr>, es))"

section \<open>The verification view\<close>

text \<open>\<^verbatim>\<open>(process.env.NEXT_PUBLIC_API_URL || "").replace(/\/$/, "")\<close>: one trailing slash less.\<close>

definition API_BASE :: "env \<Rightarrow> string" where
  "API_BASE e =
     (let u = or_default (NEXT_PUBLIC_API_URL e) []
      in if u \<noteq> [] \<and> last u = CHR ''/'' then butlast u else u)"

record verification_state =
  entries :: "js list"
  isLoading :: bool
  isRefreshing :: bool
  detailOpen :: bool
  detailEntry :: js
  detailLoading :: bool

text \<open>
  The entries \<^verbatim>\<open>loadData\<close> keeps: the body when it is an array, its \<^verbatim>\<open>data\<close> when that
  is one, nothing otherwise.
\<close>

definition entries_of :: "js \<Rightarrow> js list" where
  "entries_of data =
     (case data of
        JArr xs \<Rightarrow> xs
      | _ \<Rightarrow>
          if truthy data
          then (case get_prop data ''data'' of Inr (JArr ys) \<Rightarrow> ys | _ \<Rightarrow> [])
          else [])"

definition loadData_try :: "world \<Rightarrow> env \<Rightarrow> browser \<Rightarrow> bool \<Rightarrow> (js list) io" where
  "loadData_try w e b showToast =
     io_bind (client_token e b) (\<lambda>token.
     io_bind (await_fetch w (bearer_get (API_BASE e @ ''/api/admin/verification'') token)) (\<lambda>res.
       if \<not> ok res then throw (Error (''Failed to load: '' @ string_of_nat (status res)))
       else
         io_bind (lift (res_json res)) (\<lambda>data.
         io_bind (if showToast
                  then emit (Toast (ToastRefreshed (case data of JArr xs \<Rightarrow> length xs | _ \<Rightarrow> 0)))
                  else skip) (\<lambda>_.
           (Normal (entries_of data), [])))))"

definition loadData ::
  "world \<Rightarrow> env \<Rightarrow> browser \<Rightarrow> bool \<Rightarrow> verification_state \<Rightarrow> verification_state \<times> effect list" where
  "loadData w e b showToast s =
     (let s1 = s\<lparr>isLoading := True\<rparr>;
          (c, es) = loadData_try w e b showToast;
          (s2, es2) = (case c of
                         Normal xs \<Rightarrow> (s1\<lparr>entries := xs\<rparr>, es)
                       | Throw err \<Rightarrow> (s1\<lparr>entries := []\<rparr>, es @ [Toast (ToastLoadFailed err)])
                       | Return _ \<Rightarrow> (s1, es))
      in (s2\<lparr>isLoading := False, isRefreshing := False\<rparr>, es2))"

text \<open>
  \<^verbatim>\<open>openDetails(id)\<close> of the verification view; \<open>idText\<close> is the id as the template literal
  renders it.
\<close>

definition openDetails_try :: "world \<Rightarrow> env \<Rightarrow> browser \<Rightarrow> string \<Rightarrow> js io" where
  "openDetails_try w e b idText =
     io_bind (client_token e b) (\<lambda>token.
     io_bind (await_fetch w (bearer_get (API_BASE e @ ''/api/admin/verification/'' @ idText) token)) (\<lambda>res.
       if \<not> ok res then throw (Error (''Failed to load details: '' @ string_of_nat (status res)))
       else
         io_bind (lift (res_json res)) (\<lambda>data.
           if truthy data then
             io_bind (lift (get_prop data ''data'')) (\<lambda>inner.
               (Normal (if truthy inner then inner else data), []))
           else (Normal data, []))))"

definition openDetails ::
  "world \<Rightarrow> env \<Rightarrow> browser \<Rightarrow> string \<Rightarrow> verification_state \<Rightarrow> verification_state \<times> effect list" where
  "openDetails w e b idText s =
     (let s1 = s\<lparr>detailLoading := True, detailOpen := True\<rparr>;
          (c, es) = openDetails_try w e b idText;
          (s2, es2) = (case c of
                         Normal d \<Rightarrow> (s1\<lparr>detailEntry := d\<rparr>, es)
                       | Throw err \<Rightarrow> (s1\<lparr>detailEntry := JNull\<rparr>, es @ [Toast (ToastDetailsFailed err)])
                       | Return _ \<Rightarrow> (s1, es))
      in (s2\<lparr>detailLoading := False\<rparr>, es2))"

section \<open>The conditions the properties speak of\<close>

text \<open>
  The external validation endpoint confirms an admin: the call resolves, the response is a
  success, its body parses and \<^verbatim>\<open>me.user?.role\<close> is \<^verbatim>\<open>"admin"\<close>.
\<close>

definition validation_confirms_admin :: "world \<Rightarrow> env \<Rightarrow> string \<Rightarrow> bool" where
  "validation_confirms_admin w e accessToken =
     (case fetch w (me_request e accessToken) of
        Inl _ \<Rightarrow> False
      | Inr r \<Rightarrow>
          ok r \<and>
          (case res_json r of
             Inl _ \<Rightarrow> False
           | Inr me \<Rightarrow>
               (case get_prop me ''user'' of
                  Inl _ \<Rightarrow> False
                | Inr u \<Rightarrow> opt_chain u ''role'' = Inr (JStr ''admin''))))"

text \<open>
  The refresh exchange yields a body: the refresh token is a non-empty string, the call
  resolves, the response is a success and its body parses to a value other than
  \<^verbatim>\<open>null\<close>.
\<close>

definition refresh_exchange :: "world \<Rightarrow> env \<Rightarrow> string option \<Rightarrow> js option" where
  "refresh_exchange w e refreshToken =
     (case refreshToken of
        None \<Rightarrow> None
      | Some rt \<Rightarrow>
          if rt = [] then None
          else
            (case fetch w (refresh_request e rt) of
               Inl _ \<Rightarrow> None
             | Inr r \<Rightarrow>
                 if ok r then
                   (case res_json r of
                      Inl _ \<Rightarrow> None
                    | Inr data \<Rightarrow> if data = JNull \<or> data = JUndefined then None else Some data)
                 else None))"

text \<open>The \<open>k\<close> of the object \<open>v\<close> is a number, as the interfaces \<^verbatim>\<open>Job\<close> and \<^verbatim>\<open>Application\<close> declare their ids.\<close>

text \<open>The value \<open>v\<close> is an object that has the field \<open>k\<close>.\<close>

fun has_field :: "js \<Rightarrow> string \<Rightarrow> bool" where
  "has_field (JObj kvs) k = (map_of kvs k \<noteq> None)"
| "has_field _ k = False"

fun has_number :: "string \<Rightarrow> js \<Rightarrow> bool" where
  "has_number k (JObj kvs) = (case map_of kvs k of Some (JNum n) \<Rightarrow> True | _ \<Rightarrow> False)"
| "has_number k _ = False"

text \<open>An effect that reads or writes a cookie, and a trace without any.\<close>

fun touches_cookie :: "effect \<Rightarrow> bool" where
  "touches_cookie (CookieGet n) = True"
| "touches_cookie (CookieSet n) = True"
| "touches_cookie _ = False"

definition cookie_free :: "effect list \<Rightarrow> bool" where
  "cookie_free es = list_all (\<lambda>x. \<not> touches_cookie x) es"

section \<open>Example inputs\<close>

definition example_env :: env where
  "example_env =
     \<lparr>JWT_SECRET = None, NEXT_PUBLIC_API_URL = None, NEXT_PUBLIC_API_BASE = None,
      NEXT_PUBLIC_ADMIN_ACCESS_TOKEN = None, NODE_ENV = Some ''production''\<rparr>"

definition signature_error :: exn where
  "signature_error =
     Exn ''JWSSignatureVerificationFailed'' ''signature verification failed''
       (Some ''ERR_JWS_SIGNATURE_VERIFICATION_FAILED'')"

definition example_jwtVerify :: "string \<Rightarrow> string \<Rightarrow> exn + (string \<times> js) list" where
  "example_jwtVerify tok sec =
     (if sec = ''this-is-a-super-secret-key'' \<and> tok = ''admin-jwt'' then Inr [(''role'', JStr ''admin'')]
      else if sec = ''this-is-a-super-secret-key'' \<and> tok = ''member-jwt'' then Inr [(''role'', JStr ''member'')]
      else Inl signature_error)"

definition json_response :: "nat \<Rightarrow> js \<Rightarrow> exn + fetch_response" where
  "json_response st b = Inr \<lparr>status = st, res_json = Inr b\<rparr>"

definition example_job :: "real \<Rightarrow> js" where
  "example_job i = JObj [(''id'', JNum i), (''title'', JStr ''Garden help'')]"

definition example_application :: "real \<Rightarrow> real \<Rightarrow> js" where
  "example_application i j = JObj [(''id'', JNum i), (''status'', JStr ''pending''), (''job_id'', JNum j)]"

definition admin_user :: js where
  "admin_user = JObj [(''id'', JNum 1), (''role'', JStr ''admin'')]"

definition login_body :: "string \<Rightarrow> js" where
  "login_body who =
     JObj [(''identifier'', JStr who), (''password'', JStr ''pw''), (''remember'', JBool False)]"

text \<open>
  An upstream API: it knows the access token \<^verbatim>\<open>foreign-admin\<close>, answers five refresh
  tokens with a success (with both tokens, with an access token only, with an empty object,
  with \<^verbatim>\<open>null\<close>, with a string), logs in an admin with tokens, an admin without tokens
  and a member, and lists three jobs and one application.
\<close>

definition example_fetch :: "fetch_request \<Rightarrow> exn + fetch_response" where
  "example_fetch rq =
     (if url rq = ''http://localhost:3000/api/auth/me'' then
        (if headers rq = [(''Authorization'', ''Bearer foreign-admin'')]
         then json_response 200 (JObj [(''user'', admin_user)])
         else json_response 401 (JObj [(''message'', JStr ''Unauthorized'')]))
      else if url rq = ''http://localhost:3000/api/auth/refresh'' then
        (if body rq = Some (JObj [(''refreshToken'', JStr ''rt-1'')])
         then json_response 200 (JObj [(''accessToken'', JStr ''at-2''), (''refreshToken'', JStr ''rt-2'')])
         else if body rq = Some (JObj [(''refreshToken'', JStr ''rt-access-only'')])
         then json_response 200 (JObj [(''accessToken'', JStr ''at-3'')])
         else if body rq = Some (JObj [(''refreshToken'', JStr ''rt-empty'')])
         then json_response 200 (JObj [])
         else if body rq = Some (JObj [(''refreshToken'', JStr ''rt-null'')])
         then json_response 200 JNull
         else if body rq = Some (JObj [(''refreshToken'', JStr ''rt-text'')])
         then json_response 200 (JStr ''ok'')
         else json_response 401 (JObj [(''message'', JStr ''Invalid refresh token'')]))
      else if url rq = ''http://localhost:3000/api/auth/login'' then
        (if body rq = Some (login_body ''root@example.org'')
         then json_response 200
                (JObj [(''user'', admin_user), (''accessToken'', JStr ''at-1''), (''refreshToken'', JStr ''rt-1'')])
         else if body rq = Some (login_body ''bare@example.org'')
         then json_response 200 (JObj [(''user'', admin_user)])
         else if body rq = Some (login_body ''ann@example.org'')
         then json_response 200
                (JObj [(''user'', JObj [(''id'', JNum 2), (''role'', JStr ''member'')]),
                       (''accessToken'', JStr ''at-9''), (''refreshToken'', JStr ''rt-9'')])
         else json_response 401 (JObj [(''message'', JStr ''Invalid credentials'')]))
      else if url rq = ''/api/admin/jobs'' then
        json_response 200 (JObj [(''jobs'', JArr [example_job 1, example_job 2, example_job 3])])
      else if url rq = ''/api/jobapp'' then
        json_response 200 (JObj [(''applications'', JArr [example_application 7 2])])
      else Inl (Exn ''TypeError'' ''fetch failed'' None))"

definition example_world :: world where
  "example_world = \<lparr>jwtVerify = example_jwtVerify, fetch = example_fetch\<rparr>"

definition example_request :: "(string \<times> string) list \<Rightarrow> request" where
  "example_request cs =
     \<lparr>cookies = map_of cs, req_url = ''https://admin.example/jobs'',
      req_json = Inl (Exn ''SyntaxError'' ''Unexpected end of JSON input'' None)\<rparr>"

definition login_post :: "string \<Rightarrow> request" where
  "login_post who =
     \<lparr>cookies = Map.empty, req_url = ''https://admin.example/api/auth/login'',
      req_json = Inr (login_body who)\<rparr>"

definition example_browser :: browser where
  "example_browser = \<lparr>window_defined = True, localStorage = [''accessToken'' \<mapsto> ''at-1'']\<rparr>"

definition empty_jobs_state :: jobs_state where
  "empty_jobs_state =
     \<lparr>jobs = [], isLoadingJobs = False, jobsError = None, applications = [],
      isLoadingApps = False, appsError = None\<rparr>"

definition rotating_request :: request where
  "rotating_request = example_request [(''auth_token'', ''stale-jwt''), (''refresh_token'', ''rt-1'')]"

definition access_only_request :: request where
  "access_only_request =
     example_request [(''auth_token'', ''stale-jwt''), (''refresh_token'', ''rt-access-only'')]"

definition expired_request :: request where
  "expired_request = example_request [(''auth_token'', ''stale-jwt''), (''refresh_token'', ''rt-revoked'')]"

definition empty_refresh_request :: request where
  "empty_refresh_request =
     example_request [(''auth_token'', ''stale-jwt''), (''refresh_token'', ''rt-empty'')]"

definition text_refresh_request :: request where
  "text_refresh_request =
     example_request [(''auth_token'', ''stale-jwt''), (''refresh_token'', ''rt-text'')]"

definition null_refresh_request :: request where
  "null_refresh_request =
     example_request [(''auth_token'', ''stale-jwt''), (''refresh_token'', ''rt-null'')]"

definition admin_login_data :: js where
  "admin_login_data =
     JObj [(''user'', admin_user), (''accessToken'', JStr ''at-1''), (''refreshToken'', JStr ''rt-1'')]"

definition member_login_data :: js where
  "member_login_data =
     JObj [(''user'', JObj [(''id'', JNum 2), (''role'', JStr ''member'')]),
           (''accessToken'', JStr ''at-9''), (''refreshToken'', JStr ''rt-9'')]"

definition bare_login_data :: js where
  "bare_login_data = JObj [(''user'', admin_user)]"

definition jobs_body :: js where
  "jobs_body = JObj [(''jobs'', JArr [example_job 1, example_job 2, example_job 3])]"

definition apps_body :: js where
  "apps_body = JObj [(''applications'', JArr [example_application 7 2])]"

definition dev_env :: env where
  "dev_env =
     \<lparr>JWT_SECRET = None, NEXT_PUBLIC_API_URL = None, NEXT_PUBLIC_API_BASE = None,
      NEXT_PUBLIC_ADMIN_ACCESS_TOKEN = None, NODE_ENV = Some ''development''\<rparr>"

definition member_response :: response where
  "member_response =
     \<lparr>kind = Json (JObj [(''success'', JBool False), (''message'', JStr ''Unauthorized: Admin access only'')]),
      res_status = 403, set_cookies = []\<rparr>"

section \<open>Stepping through a handler\<close>

lemma io_bind_simps:
  "io_bind (Normal a, es) f = (case f a of (c, es') \<Rightarrow> (c, es @ es'))"
  "io_bind (Return r, es) f = (Return r, es)"
  "io_bind (Throw x, es) f = (Throw x, es)"
  by (simp_all add: io_bind_def)

lemma try_catch_simps:
  "try_catch (Normal a, es) h = (Normal a, es)"
  "try_catch (Return r, es) h = (Return r, es)"
  "try_catch (Throw x, es) h = (case h x of (c, es') \<Rightarrow> (c, es @ es'))"
  by (simp_all add: try_catch_def)

lemmas io_defs = lift_def ret_def skip_def emit_def throw_def await_fetch_def cookies_get_def

lemmas step = io_bind_simps try_catch_simps io_defs

lemmas example_defs = example_env_def signature_error_def example_jwtVerify_def json_response_def
  example_fetch_def example_world_def example_request_def login_post_def login_body_def
  admin_user_def

lemmas request_defs = me_request_def refresh_request_def login_request_def apiBase_def secret_def
  or_default_def ok_def

lemmas response_defs = login_redirect_def NextResponse_redirect_def NextResponse_next_def
  NextResponse_json_def json_return_def cookies_set_def token_cookie_def

section \<open>The blocks of the middleware\<close>

lemma validate_block_admin:
  "validation_confirms_admin w e tok \<Longrightarrow>
   validate_block w e tok = (Return NextResponse_next, [Fetch (me_request e tok)])"
  by (auto simp: validation_confirms_admin_def validate_block_def step split: sum.splits)

lemma validate_block_falls_through:
  "\<not> validation_confirms_admin w e tok \<Longrightarrow>
   \<exists>es. validate_block w e tok = (Normal (), es)"
  by (auto simp: validation_confirms_admin_def validate_block_def step split: sum.splits)

lemma refresh_block_fails:
  "refresh_exchange w e rto = None \<Longrightarrow> \<exists>es. refresh_block w e rto = (Normal (), es)"
  by (auto simp: refresh_exchange_def refresh_block_def step TypeError_read_def
      split: sum.splits option.splits if_splits)

lemma get_prop_defined:
  "data \<noteq> JNull \<Longrightarrow> data \<noteq> JUndefined \<Longrightarrow> \<exists>v. get_prop data k = Inr v"
  by (cases data) simp_all

lemma get_prop_Inr_defined: "get_prop data k = Inr v \<Longrightarrow> data \<noteq> JNull \<and> data \<noteq> JUndefined"
  by (cases data) simp_all

lemma refresh_block_rotates:
  assumes "fetch w (refresh_request e rt) = Inr r" and "rt \<noteq> []" and "ok r"
    and "res_json r = Inr data"
    and "get_prop data ''accessToken'' = Inr newAccess"
    and "get_prop data ''refreshToken'' = Inr newRefresh"
  shows "refresh_block w e (Some rt) =
           (Return \<lparr>kind = Next, res_status = 200,
                    set_cookies =
                      (if truthy newAccess then [token_cookie e ''auth_token'' newAccess 900] else []) @
                      (if truthy newRefresh then [token_cookie e ''refresh_token'' newRefresh 604800] else [])\<rparr>,
            [Fetch (refresh_request e rt)])"
  using assms
  by (simp add: refresh_block_def step NextResponse_next_def cookies_set_def token_cookie_def)

lemma refresh_block_succeeds:
  assumes "refresh_exchange w e rto = Some data"
  shows "\<exists>r es. refresh_block w e rto = (Return r, es)"
proof -
  from assms obtain rt r where rt: "rto = Some rt" "rt \<noteq> []"
    and r: "fetch w (refresh_request e rt) = Inr r" "ok r" "res_json r = Inr data"
    and d: "data \<noteq> JNull" "data \<noteq> JUndefined"
    by (auto simp: refresh_exchange_def split: option.splits sum.splits if_splits)
  from d obtain a b where "get_prop data ''accessToken'' = Inr a" "get_prop data ''refreshToken'' = Inr b"
    using get_prop_defined by blast
  with rt r show ?thesis
    using refresh_block_rotates [of w e rt r data a b] by blast
qed

lemma middleware_verify_fails:
  assumes "cookies req ''auth_token'' = Some tok" and "tok \<noteq> []"
    and "jwtVerify w tok (secret e) = Inl err"
  shows "middleware w e req =
           io_bind (Normal (), [CookieGet ''auth_token'', CookieGet ''refresh_token''])
             (\<lambda>_. catch_block w e req tok (cookies req ''refresh_token'') err)"
  using assms
  by (simp add: middleware_def verify_block_def step split: prod.splits)

lemma catch_block_fst:
  "fst (catch_block w e req tok rto err) =
     (case fst (validate_block w e tok) of
        Normal _ \<Rightarrow>
          (case fst (refresh_block w e rto) of
             Normal _ \<Rightarrow> Return (login_redirect req)
           | Return r \<Rightarrow> Return r
           | Throw x \<Rightarrow> Throw x)
      | Return r \<Rightarrow> Return r
      | Throw x \<Rightarrow> Throw x)"
  by (cases "validate_block w e tok"; cases "refresh_block w e rto")
     (auto simp: catch_block_def log_verify_error_def step split: completion.splits prod.splits)

lemma middleware_verify_fails_fst:
  assumes "cookies req ''auth_token'' = Some tok" and "tok \<noteq> []"
    and "jwtVerify w tok (secret e) = Inl err"
  shows "fst (middleware w e req) = fst (catch_block w e req tok (cookies req ''refresh_token'') err)"
  by (simp add: middleware_verify_fails [OF assms] step split: prod.splits)

section \<open>Properties of the session guard\<close>

text \<open>
  C1. A request to a protected route without an \<^verbatim>\<open>auth_token\<close> cookie (or with an empty
  one) is redirected to \<^verbatim>\<open>/login\<close>; the guard only read the two cookies and made no
  network call, to the validation endpoint or to the refresh endpoint.
\<close>

theorem C1_no_access_token:
  assumes "cookies req ''auth_token'' = None \<or> cookies req ''auth_token'' = Some []"
  shows "middleware w e req =
           (Return \<lparr>kind = Redirect ''/login'' (req_url req), res_status = 307, set_cookies = []\<rparr>,
            [CookieGet ''auth_token'', CookieGet ''refresh_token''])
         \<and> fetch_calls (snd (middleware w e req)) = []"
  using assms
  by (auto simp: middleware_def response_defs step fetch_calls_def)

theorem C1_witness:
  "(cookies (example_request []) ''auth_token'' = None
      \<or> cookies (example_request []) ''auth_token'' = Some [])
   \<and> middleware example_world example_env (example_request []) =
       (Return \<lparr>kind = Redirect ''/login'' ''https://admin.example/jobs'', res_status = 307, set_cookies = []\<rparr>,
        [CookieGet ''auth_token'', CookieGet ''refresh_token''])
   \<and> fetch_calls (snd (middleware example_world example_env (example_request []))) = []"
proof -
  have h: "cookies (example_request []) ''auth_token'' = None
      \<or> cookies (example_request []) ''auth_token'' = Some []"
    by (simp add: example_request_def)
  have u: "req_url (example_request []) = ''https://admin.example/jobs''"
    by (simp add: example_request_def)
  note c = C1_no_access_token [OF h, of example_world example_env, unfolded u]
  from h c show ?thesis by blast
qed

text \<open>
  C2. When the access token verifies locally against the shared secret: with the role claim
  \<^verbatim>\<open>"admin"\<close> the guard lets the request through, writes no cookie and makes no network
  call; with any other role claim (or none) it redirects to \<^verbatim>\<open>/login\<close>.
\<close>

theorem C2_local_verification:
  assumes "cookies req ''auth_token'' = Some tok" and "tok \<noteq> []"
    and "jwtVerify w tok (secret e) = Inr payload"
  shows "(map_of payload ''role'' = Some (JStr ''admin'') \<longrightarrow>
            middleware w e req =
              (Return \<lparr>kind = Next, res_status = 200, set_cookies = []\<rparr>,
               [CookieGet ''auth_token'', CookieGet ''refresh_token''])
            \<and> fetch_calls (snd (middleware w e req)) = [])
         \<and> (map_of payload ''role'' \<noteq> Some (JStr ''admin'') \<longrightarrow>
            fst (middleware w e req) =
              Return \<lparr>kind = Redirect ''/login'' (req_url req), res_status = 307, set_cookies = []\<rparr>)"
  using assms
  by (auto simp: middleware_def verify_block_def response_defs step fetch_calls_def split: option.splits)

theorem C2_witness:
  "cookies (example_request [(''auth_token'', ''admin-jwt'')]) ''auth_token'' = Some ''admin-jwt''
   \<and> jwtVerify example_world ''admin-jwt'' (secret example_env) = Inr [(''role'', JStr ''admin'')]
   \<and> middleware example_world example_env (example_request [(''auth_token'', ''admin-jwt'')]) =
       (Return \<lparr>kind = Next, res_status = 200, set_cookies = []\<rparr>,
        [CookieGet ''auth_token'', CookieGet ''refresh_token''])
   \<and> cookies (example_request [(''auth_token'', ''member-jwt'')]) ''auth_token'' = Some ''member-jwt''
   \<and> jwtVerify example_world ''member-jwt'' (secret example_env) = Inr [(''role'', JStr ''member'')]
   \<and> fst (middleware example_world example_env (example_request [(''auth_token'', ''member-jwt'')])) =
       Return \<lparr>kind = Redirect ''/login'' ''https://admin.example/jobs'', res_status = 307, set_cookies = []\<rparr>"
proof -
  have a1: "cookies (example_request [(''auth_token'', ''admin-jwt'')]) ''auth_token'' = Some ''admin-jwt''"
    and m1: "cookies (example_request [(''auth_token'', ''member-jwt'')]) ''auth_token'' = Some ''member-jwt''"
    by (simp_all add: example_request_def)
  have a2: "''admin-jwt'' \<noteq> []" and m2: "''member-jwt'' \<noteq> []" by simp_all
  have a3: "jwtVerify example_world ''admin-jwt'' (secret example_env) = Inr [(''role'', JStr ''admin'')]"
    and m3: "jwtVerify example_world ''member-jwt'' (secret example_env) = Inr [(''role'', JStr ''member'')]"
    by (simp_all add: example_world_def example_jwtVerify_def example_env_def secret_def or_default_def)
  have a4: "map_of [(''role'', JStr ''admin'')] ''role'' = Some (JStr ''admin'')"
    and m4: "map_of [(''role'', JStr ''member'')] ''role'' \<noteq> Some (JStr ''admin'')"
    by simp_all
  have u: "req_url (example_request [(''auth_token'', ''member-jwt'')]) = ''https://admin.example/jobs''"
    by (simp add: example_request_def)
  note ca = C2_local_verification [OF a1 a2 a3]
  note cm = C2_local_verification [OF m1 m2 m3, unfolded u]
  from a1 a3 a4 ca m1 m3 m4 cm show ?thesis by blast
qed

text \<open>
  C3. When the access token fails local verification and the external validation endpoint
  confirms an admin, the guard lets the request through and writes no cookie: the token is
  not rotated, and the refresh endpoint is not called.
\<close>

theorem C3_external_validation:
  assumes "cookies req ''auth_token'' = Some tok" and "tok \<noteq> []"
    and "jwtVerify w tok (secret e) = Inl err"
    and "validation_confirms_admin w e tok"
  shows "fst (middleware w e req) = Return \<lparr>kind = Next, res_status = 200, set_cookies = []\<rparr>
         \<and> fetch_calls (snd (middleware w e req)) = [me_request e tok]"
  using assms(1-3) validate_block_admin [OF assms(4)]
  by (simp add: middleware_def verify_block_def catch_block_def log_verify_error_def
      NextResponse_next_def step fetch_calls_def)

theorem C3_witness:
  "cookies (example_request [(''auth_token'', ''foreign-admin'')]) ''auth_token'' = Some ''foreign-admin''
   \<and> jwtVerify example_world ''foreign-admin'' (secret example_env) = Inl signature_error
   \<and> validation_confirms_admin example_world example_env ''foreign-admin''
   \<and> fst (middleware example_world example_env (example_request [(''auth_token'', ''foreign-admin'')])) =
       Return \<lparr>kind = Next, res_status = 200, set_cookies = []\<rparr>
   \<and> fetch_calls (snd (middleware example_world example_env
                          (example_request [(''auth_token'', ''foreign-admin'')]))) =
       [me_request example_env ''foreign-admin'']"
proof -
  have h1: "cookies (example_request [(''auth_token'', ''foreign-admin'')]) ''auth_token'' = Some ''foreign-admin''"
    by (simp add: example_request_def)
  have h2: "''foreign-admin'' \<noteq> []" by simp
  have h3: "jwtVerify example_world ''foreign-admin'' (secret example_env) = Inl signature_error"
    by (simp add: example_world_def example_jwtVerify_def)
  have h4: "validation_confirms_admin example_world example_env ''foreign-admin''"
    by (simp add: validation_confirms_admin_def example_defs request_defs)
  note c = C3_external_validation [OF h1 h2 h3 h4]
  from h1 h3 h4 c show ?thesis by blast
qed

lemma middleware_reaches_refresh:
  assumes "cookies req ''auth_token'' = Some tok" and "tok \<noteq> []"
    and "jwtVerify w tok (secret e) = Inl err"
    and "\<not> validation_confirms_admin w e tok"
  shows "fst (middleware w e req) =
           (case fst (refresh_block w e (cookies req ''refresh_token'')) of
              Normal _ \<Rightarrow> Return (login_redirect req)
            | Return r \<Rightarrow> Return r
            | Throw x \<Rightarrow> Throw x)"
proof -
  from validate_block_falls_through [OF assms(4)]
  obtain es where "validate_block w e tok = (Normal (), es)" by blast
  then show ?thesis
    by (simp add: middleware_verify_fails_fst [OF assms(1-3)] catch_block_fst)
qed

text \<open>
  C4, as the code has it. When local verification throws, external validation does not
  confirm an admin, the \<^verbatim>\<open>refresh_token\<close> cookie is a non-empty string and the refresh
  endpoint answers with a success whose JSON body is not \<^verbatim>\<open>null\<close>, the guard lets the
  request through. It sets \<^verbatim>\<open>auth_token\<close> (httpOnly, sameSite lax, secure in production,
  path \<^verbatim>\<open>/\<close>, maxAge 900) exactly when the body's \<^verbatim>\<open>accessToken\<close> is truthy, and
  \<^verbatim>\<open>refresh_token\<close> (same flags, maxAge 604800) exactly when its \<^verbatim>\<open>refreshToken\<close> is
  truthy: both cookies when the body carries both tokens.
\<close>

theorem C4_refresh_rotation:
  assumes "cookies req ''auth_token'' = Some tok" and "tok \<noteq> []"
    and "jwtVerify w tok (secret e) = Inl err"
    and "\<not> validation_confirms_admin w e tok"
    and "cookies req ''refresh_token'' = Some rt" and "rt \<noteq> []"
    and "fetch w (refresh_request e rt) = Inr r" and "ok r"
    and "res_json r = Inr data"
    and "get_prop data ''accessToken'' = Inr newAccess"
    and "get_prop data ''refreshToken'' = Inr newRefresh"
  shows "fst (middleware w e req) =
           Return \<lparr>kind = Next, res_status = 200,
                   set_cookies =
                     (if truthy newAccess
                      then [\<lparr>cname = ''auth_token'', cvalue = newAccess, httpOnly = True,
                             secure = (NODE_ENV e = Some ''production''), sameSite = ''lax'',
                             maxAge = 900, path = ''/''\<rparr>]
                      else []) @
                     (if truthy newRefresh
                      then [\<lparr>cname = ''refresh_token'', cvalue = newRefresh, httpOnly = True,
                             secure = (NODE_ENV e = Some ''production''), sameSite = ''lax'',
                             maxAge = 604800, path = ''/''\<rparr>]
                      else [])\<rparr>"
  using refresh_block_rotates [OF assms(7) assms(6) assms(8-11)]
  by (simp add: middleware_reaches_refresh [OF assms(1-4)] assms(5) token_cookie_def)

theorem C4_witness:
  "cookies rotating_request ''auth_token'' = Some ''stale-jwt''
   \<and> jwtVerify example_world ''stale-jwt'' (secret example_env) = Inl signature_error
   \<and> \<not> validation_confirms_admin example_world example_env ''stale-jwt''
   \<and> cookies rotating_request ''refresh_token'' = Some ''rt-1''
   \<and> fetch example_world (refresh_request example_env ''rt-1'') =
       Inr \<lparr>status = 200,
            res_json = Inr (JObj [(''accessToken'', JStr ''at-2''), (''refreshToken'', JStr ''rt-2'')])\<rparr>
   \<and> fst (middleware example_world example_env rotating_request) =
       Return \<lparr>kind = Next, res_status = 200,
               set_cookies =
                 [\<lparr>cname = ''auth_token'', cvalue = JStr ''at-2'', httpOnly = True, secure = True,
                   sameSite = ''lax'', maxAge = 900, path = ''/''\<rparr>,
                  \<lparr>cname = ''refresh_token'', cvalue = JStr ''rt-2'', httpOnly = True, secure = True,
                   sameSite = ''lax'', maxAge = 604800, path = ''/''\<rparr>]\<rparr>"
proof -
  let ?data = "JObj [(''accessToken'', JStr ''at-2''), (''refreshToken'', JStr ''rt-2'')]"
  let ?r = "\<lparr>status = 200, res_json = Inr ?data\<rparr>"
  have h1: "cookies rotating_request ''auth_token'' = Some ''stale-jwt''"
    and h5: "cookies rotating_request ''refresh_token'' = Some ''rt-1''"
    by (simp_all add: rotating_request_def example_request_def)
  have h2: "''stale-jwt'' \<noteq> []" and h6: "''rt-1'' \<noteq> []" by simp_all
  have h3: "jwtVerify example_world ''stale-jwt'' (secret example_env) = Inl signature_error"
    by (simp add: example_world_def example_jwtVerify_def)
  have h4: "\<not> validation_confirms_admin example_world example_env ''stale-jwt''"
    by (simp add: validation_confirms_admin_def example_defs request_defs)
  have h7: "fetch example_world (refresh_request example_env ''rt-1'') = Inr ?r"
    by (simp add: example_defs request_defs)
  have h8: "ok ?r" by (simp add: ok_def)
  have h9: "res_json ?r = Inr ?data" by simp
  have h10: "get_prop ?data ''accessToken'' = Inr (JStr ''at-2'')"
    and h11: "get_prop ?data ''refreshToken'' = Inr (JStr ''rt-2'')"
    by simp_all
  have p: "NODE_ENV example_env = Some ''production''" by (simp add: example_env_def)
  have c: "fst (middleware example_world example_env rotating_request) =
       Return \<lparr>kind = Next, res_status = 200,
               set_cookies =
                 [\<lparr>cname = ''auth_token'', cvalue = JStr ''at-2'', httpOnly = True, secure = True,
                   sameSite = ''lax'', maxAge = 900, path = ''/''\<rparr>,
                  \<lparr>cname = ''refresh_token'', cvalue = JStr ''rt-2'', httpOnly = True, secure = True,
                   sameSite = ''lax'', maxAge = 604800, path = ''/''\<rparr>]\<rparr>"
    using C4_refresh_rotation [OF h1 h2 h3 h4 h5 h6 h7 h8 h9 h10 h11] p by simp
  from h1 h3 h4 h5 h7 c show ?thesis by blast
qed

lemmas all_defs = middleware_def verify_block_def catch_block_def log_verify_error_def
  validate_block_def refresh_block_def validation_confirms_admin_def refresh_exchange_def
  response_defs request_defs step example_defs

theorem C4_counterexample:
  "cookies access_only_request ''auth_token'' = Some ''stale-jwt''
   \<and> jwtVerify example_world ''stale-jwt'' (secret example_env) = Inl signature_error
   \<and> \<not> validation_confirms_admin example_world example_env ''stale-jwt''
   \<and> cookies access_only_request ''refresh_token'' = Some ''rt-access-only''
   \<and> fetch example_world (refresh_request example_env ''rt-access-only'') =
       Inr \<lparr>status = 200, res_json = Inr (JObj [(''accessToken'', JStr ''at-3'')])\<rparr>
   \<and> fst (middleware example_world example_env access_only_request) =
       Return \<lparr>kind = Next, res_status = 200,
               set_cookies =
                 [\<lparr>cname = ''auth_token'', cvalue = JStr ''at-3'', httpOnly = True, secure = True,
                   sameSite = ''lax'', maxAge = 900, path = ''/''\<rparr>]\<rparr>"
  by (simp add: access_only_request_def all_defs)

lemma validate_block_never_throws:
  "\<exists>es. validate_block w e tok = (Normal (), es) \<or> validate_block w e tok = (Return NextResponse_next, es)"
  using validate_block_admin [of w e tok] validate_block_falls_through [of w e tok] by blast

lemma refresh_block_never_throws:
  "\<exists>c es. refresh_block w e rto = (c, es) \<and> (c = Normal () \<or> (\<exists>r. c = Return r))"
proof (cases "refresh_exchange w e rto")
  case None
  from refresh_block_fails [OF this] show ?thesis by blast
next
  case (Some data)
  from refresh_block_succeeds [OF this] show ?thesis by blast
qed

lemma catch_block_returns: "\<exists>r. fst (catch_block w e req tok rto err) = Return r"
proof -
  from validate_block_never_throws [of w e tok] obtain es
    where v: "fst (validate_block w e tok) = Normal () \<or> fst (validate_block w e tok) = Return NextResponse_next"
    by force
  from refresh_block_never_throws [of w e rto]
  have r: "fst (refresh_block w e rto) = Normal () \<or> (\<exists>r. fst (refresh_block w e rto) = Return r)"
    by force
  from v r show ?thesis
    by (auto simp: catch_block_fst)
qed

lemma middleware_returns: "\<exists>r. fst (middleware w e req) = Return r"
proof (cases "cookies req ''auth_token''")
  case None
  then show ?thesis by (simp add: middleware_def step)
next
  case (Some tok)
  show ?thesis
  proof (cases "tok = []")
    case True
    with Some show ?thesis by (simp add: middleware_def step)
  next
    case False
    show ?thesis
    proof (cases "jwtVerify w tok (secret e)")
      case (Inl err)
      from middleware_verify_fails_fst [OF Some False Inl] catch_block_returns
      show ?thesis by simp
    next
      case (Inr payload)
      with Some False show ?thesis
        by (simp add: middleware_def verify_block_def step)
    qed
  qed
qed

text \<open>
  C5. The guard fails closed and never throws. Whatever the cookies, the verifier and the
  network do, the middleware returns a response: no exception reaches its caller. It is the
  redirect to \<^verbatim>\<open>/login\<close> when the access token is missing, when the token verifies with a
  role other than \<^verbatim>\<open>"admin"\<close>, and when verification throws, external validation does not
  confirm an admin (the call fails, answers a non-success, or reports another role) and the
  refresh exchange yields nothing (no refresh token, or the call fails, answers a
  non-success or has no usable body).
\<close>

theorem C5_fail_closed:
  "(\<exists>r. fst (middleware w e req) = Return r)
   \<and> (cookies req ''auth_token'' = None \<or> cookies req ''auth_token'' = Some [] \<longrightarrow>
        fst (middleware w e req) =
          Return \<lparr>kind = Redirect ''/login'' (req_url req), res_status = 307, set_cookies = []\<rparr>)
   \<and> (\<forall>tok payload.
        cookies req ''auth_token'' = Some tok \<and> tok \<noteq> []
        \<and> jwtVerify w tok (secret e) = Inr payload
        \<and> map_of payload ''role'' \<noteq> Some (JStr ''admin'') \<longrightarrow>
        fst (middleware w e req) =
          Return \<lparr>kind = Redirect ''/login'' (req_url req), res_status = 307, set_cookies = []\<rparr>)
   \<and> (\<forall>tok err.
        cookies req ''auth_token'' = Some tok \<and> tok \<noteq> []
        \<and> jwtVerify w tok (secret e) = Inl err
        \<and> \<not> validation_confirms_admin w e tok
        \<and> refresh_exchange w e (cookies req ''refresh_token'') = None \<longrightarrow>
        fst (middleware w e req) =
          Return \<lparr>kind = Redirect ''/login'' (req_url req), res_status = 307, set_cookies = []\<rparr>)"
proof (intro conjI allI impI)
  show "\<exists>r. fst (middleware w e req) = Return r" by (rule middleware_returns)
next
  assume "cookies req ''auth_token'' = None \<or> cookies req ''auth_token'' = Some []"
  then show "fst (middleware w e req) =
      Return \<lparr>kind = Redirect ''/login'' (req_url req), res_status = 307, set_cookies = []\<rparr>"
    by (auto simp: middleware_def response_defs step)
next
  fix tok payload
  assume "cookies req ''auth_token'' = Some tok \<and> tok \<noteq> []
        \<and> jwtVerify w tok (secret e) = Inr payload
        \<and> map_of payload ''role'' \<noteq> Some (JStr ''admin'')"
  then show "fst (middleware w e req) =
      Return \<lparr>kind = Redirect ''/login'' (req_url req), res_status = 307, set_cookies = []\<rparr>"
    by (auto simp: middleware_def verify_block_def response_defs step split: option.splits)
next
  fix tok err
  assume a: "cookies req ''auth_token'' = Some tok \<and> tok \<noteq> []
        \<and> jwtVerify w tok (secret e) = Inl err
        \<and> \<not> validation_confirms_admin w e tok
        \<and> refresh_exchange w e (cookies req ''refresh_token'') = None"
  then obtain es where "refresh_block w e (cookies req ''refresh_token'') = (Normal (), es)"
    using refresh_block_fails by blast
  with a show "fst (middleware w e req) =
      Return \<lparr>kind = Redirect ''/login'' (req_url req), res_status = 307, set_cookies = []\<rparr>"
    by (simp add: middleware_reaches_refresh login_redirect_def NextResponse_redirect_def)
qed

theorem C5_witness:
  "cookies expired_request ''auth_token'' = Some ''stale-jwt''
   \<and> jwtVerify example_world ''stale-jwt'' (secret example_env) = Inl signature_error
   \<and> \<not> validation_confirms_admin example_world example_env ''stale-jwt''
   \<and> refresh_exchange example_world example_env (cookies expired_request ''refresh_token'') = None
   \<and> fst (middleware example_world example_env expired_request) =
       Return \<lparr>kind = Redirect ''/login'' ''https://admin.example/jobs'', res_status = 307, set_cookies = []\<rparr>"
proof -
  have h1: "cookies expired_request ''auth_token'' = Some ''stale-jwt''"
    by (simp add: expired_request_def example_request_def)
  have h2: "''stale-jwt'' \<noteq> []" by simp
  have h3: "jwtVerify example_world ''stale-jwt'' (secret example_env) = Inl signature_error"
    by (simp add: example_world_def example_jwtVerify_def)
  have h4: "\<not> validation_confirms_admin example_world example_env ''stale-jwt''"
    by (simp add: validation_confirms_admin_def example_defs request_defs)
  have h5: "refresh_exchange example_world example_env (cookies expired_request ''refresh_token'') = None"
    by (simp add: refresh_exchange_def expired_request_def example_defs request_defs)
  have u: "req_url expired_request = ''https://admin.example/jobs''"
    by (simp add: expired_request_def example_request_def)
  note c = C5_fail_closed [of example_world example_env expired_request, unfolded u]
  from c h1 h2 h3 h4 h5
  have "fst (middleware example_world example_env expired_request) =
       Return \<lparr>kind = Redirect ''/login'' ''https://admin.example/jobs'', res_status = 307, set_cookies = []\<rparr>"
    by blast
  with h1 h3 h4 h5 show ?thesis by blast
qed

lemma get_prop_no_field:
  "data \<noteq> JNull \<Longrightarrow> data \<noteq> JUndefined \<Longrightarrow> \<not> has_field data k \<Longrightarrow>
   get_prop data k = Inr JUndefined"
  by (cases data) simp_all

lemma refresh_exchange_unusable:
  "res_json r = Inr JNull \<or> (\<exists>x. res_json r = Inl x) \<Longrightarrow> fetch w (refresh_request e rt) = Inr r \<Longrightarrow>
   refresh_exchange w e (Some rt) = None"
  by (auto simp: refresh_exchange_def)

text \<open>
  C9, as the code has it. When the guard reaches the refresh step and the refresh endpoint
  answers with a success: if the JSON body is a value other than \<^verbatim>\<open>null\<close> with neither an
  \<^verbatim>\<open>accessToken\<close> nor a \<^verbatim>\<open>refreshToken\<close> field (an object without them, or a string,
  number, boolean or array), the request is let through and no cookie is written, so no
  token is rotated; if the body is \<^verbatim>\<open>null\<close> or does not parse as JSON (an empty body),
  the guard redirects to \<^verbatim>\<open>/login\<close>.
\<close>

theorem C9_refresh_without_tokens:
  assumes "cookies req ''auth_token'' = Some tok" and "tok \<noteq> []"
    and "jwtVerify w tok (secret e) = Inl err"
    and "\<not> validation_confirms_admin w e tok"
    and "cookies req ''refresh_token'' = Some rt" and "rt \<noteq> []"
    and "fetch w (refresh_request e rt) = Inr r" and "ok r"
  shows "(\<forall>data. res_json r = Inr data \<and> data \<noteq> JNull \<and> data \<noteq> JUndefined
            \<and> \<not> has_field data ''accessToken'' \<and> \<not> has_field data ''refreshToken'' \<longrightarrow>
            fst (middleware w e req) = Return \<lparr>kind = Next, res_status = 200, set_cookies = []\<rparr>)
         \<and> (res_json r = Inr JNull \<or> (\<exists>x. res_json r = Inl x) \<longrightarrow>
            fst (middleware w e req) =
              Return \<lparr>kind = Redirect ''/login'' (req_url req), res_status = 307, set_cookies = []\<rparr>)"
proof (intro conjI allI impI)
  fix data
  assume d: "res_json r = Inr data \<and> data \<noteq> JNull \<and> data \<noteq> JUndefined
            \<and> \<not> has_field data ''accessToken'' \<and> \<not> has_field data ''refreshToken''"
  then have "get_prop data ''accessToken'' = Inr JUndefined"
    and "get_prop data ''refreshToken'' = Inr JUndefined"
    by (simp_all add: get_prop_no_field)
  from refresh_block_rotates [OF assms(7) assms(6) assms(8) _ this] d
  show "fst (middleware w e req) = Return \<lparr>kind = Next, res_status = 200, set_cookies = []\<rparr>"
    by (simp add: middleware_reaches_refresh [OF assms(1-4)] assms(5))
next
  assume "res_json r = Inr JNull \<or> (\<exists>x. res_json r = Inl x)"
  from refresh_exchange_unusable [OF this assms(7)] refresh_block_fails
  obtain es where "refresh_block w e (Some rt) = (Normal (), es)" by blast
  then show "fst (middleware w e req) =
      Return \<lparr>kind = Redirect ''/login'' (req_url req), res_status = 307, set_cookies = []\<rparr>"
    by (simp add: middleware_reaches_refresh [OF assms(1-4)] assms(5) login_redirect_def
        NextResponse_redirect_def)
qed

theorem C9_witness:
  "cookies empty_refresh_request ''auth_token'' = Some ''stale-jwt''
   \<and> jwtVerify example_world ''stale-jwt'' (secret example_env) = Inl signature_error
   \<and> \<not> validation_confirms_admin example_world example_env ''stale-jwt''
   \<and> cookies empty_refresh_request ''refresh_token'' = Some ''rt-empty''
   \<and> fetch example_world (refresh_request example_env ''rt-empty'') =
       Inr \<lparr>status = 200, res_json = Inr (JObj [])\<rparr>
   \<and> fst (middleware example_world example_env empty_refresh_request) =
       Return \<lparr>kind = Next, res_status = 200, set_cookies = []\<rparr>
   \<and> cookies text_refresh_request ''auth_token'' = Some ''stale-jwt''
   \<and> cookies text_refresh_request ''refresh_token'' = Some ''rt-text''
   \<and> fetch example_world (refresh_request example_env ''rt-text'') =
       Inr \<lparr>status = 200, res_json = Inr (JStr ''ok'')\<rparr>
   \<and> fst (middleware example_world example_env text_refresh_request) =
       Return \<lparr>kind = Next, res_status = 200, set_cookies = []\<rparr>"
proof -
  let ?r = "\<lparr>status = 200, res_json = Inr (JObj [])\<rparr>"
  let ?t = "\<lparr>status = 200, res_json = Inr (JStr ''ok'')\<rparr>"
  have h1: "cookies empty_refresh_request ''auth_token'' = Some ''stale-jwt''"
    and h5: "cookies empty_refresh_request ''refresh_token'' = Some ''rt-empty''"
    and t1: "cookies text_refresh_request ''auth_token'' = Some ''stale-jwt''"
    and t5: "cookies text_refresh_request ''refresh_token'' = Some ''rt-text''"
    by (simp_all add: empty_refresh_request_def text_refresh_request_def example_request_def)
  have h2: "''stale-jwt'' \<noteq> []" and h6: "''rt-empty'' \<noteq> []" and t6: "''rt-text'' \<noteq> []"
    by simp_all
  have h3: "jwtVerify example_world ''stale-jwt'' (secret example_env) = Inl signature_error"
    by (simp add: example_world_def example_jwtVerify_def)
  have h4: "\<not> validation_confirms_admin example_world example_env ''stale-jwt''"
    by (simp add: validation_confirms_admin_def example_defs request_defs)
  have h7: "fetch example_world (refresh_request example_env ''rt-empty'') = Inr ?r"
    and t7: "fetch example_world (refresh_request example_env ''rt-text'') = Inr ?t"
    by (simp_all add: example_defs request_defs)
  have h8: "ok ?r" and t8: "ok ?t" by (simp_all add: ok_def)
  have h9: "res_json ?r = Inr (JObj []) \<and> JObj [] \<noteq> JNull \<and> JObj [] \<noteq> JUndefined
            \<and> \<not> has_field (JObj []) ''accessToken'' \<and> \<not> has_field (JObj []) ''refreshToken''"
    and t9: "res_json ?t = Inr (JStr ''ok'') \<and> JStr ''ok'' \<noteq> JNull \<and> JStr ''ok'' \<noteq> JUndefined
            \<and> \<not> has_field (JStr ''ok'') ''accessToken'' \<and> \<not> has_field (JStr ''ok'') ''refreshToken''"
    by simp_all
  note c = C9_refresh_without_tokens [OF h1 h2 h3 h4 h5 h6 h7 h8, THEN conjunct1, THEN spec, THEN mp, OF h9]
  note d = C9_refresh_without_tokens [OF t1 h2 h3 h4 t5 t6 t7 t8, THEN conjunct1, THEN spec, THEN mp, OF t9]
  from h1 h3 h4 h5 h7 c t1 t5 t7 d show ?thesis by blast
qed

theorem C9_counterexample:
  "cookies null_refresh_request ''auth_token'' = Some ''stale-jwt''
   \<and> jwtVerify example_world ''stale-jwt'' (secret example_env) = Inl signature_error
   \<and> \<not> validation_confirms_admin example_world example_env ''stale-jwt''
   \<and> cookies null_refresh_request ''refresh_token'' = Some ''rt-null''
   \<and> fetch example_world (refresh_request example_env ''rt-null'') =
       Inr \<lparr>status = 200, res_json = Inr JNull\<rparr>
   \<and> fst (middleware example_world example_env null_refresh_request) =
       Return \<lparr>kind = Redirect ''/login'' ''https://admin.example/jobs'', res_status = 307,
               set_cookies = []\<rparr>"
  by (simp add: null_refresh_request_def middleware_def verify_block_def catch_block_def
      log_verify_error_def validate_block_def refresh_block_def validation_confirms_admin_def
      response_defs request_defs step example_defs TypeError_read_def)

section \<open>Properties of the login route handler\<close>

lemma destructure_Inr: "destructure b k = Inr v \<Longrightarrow> get_prop b k = Inr v"
  by (cases b) simp_all

lemma POST_try_upstream:
  assumes "req_json request = Inr reqBody"
    and "destructure reqBody ''identifier'' = Inr identifier"
    and "destructure reqBody ''password'' = Inr pass"
    and "destructure reqBody ''remember'' = Inr rememberMe"
    and "fetch w (login_request e identifier pass rememberMe) = Inr apiResponse"
    and "ok apiResponse"
    and "res_json apiResponse = Inr data"
    and "get_prop data ''user'' = Inr user"
    and "opt_chain user ''role'' = Inr role"
  shows "fst (POST_try w e request) =
           (if role \<noteq> JStr ''admin'' then
              Return \<lparr>kind = Json (JObj [(''success'', JBool False),
                                          (''message'', JStr ''Unauthorized: Admin access only'')]),
                      res_status = 403, set_cookies = []\<rparr>
            else
              (case (get_prop data ''accessToken'', get_prop data ''refreshToken'') of
                 (Inr accessToken, Inr refreshToken) \<Rightarrow>
                   Return \<lparr>kind = Json (serialise
                                         (JObj [(''success'', JBool True), (''user'', user),
                                                (''accessToken'', accessToken),
                                                (''refreshToken'', refreshToken)])),
                           res_status = 200,
                           set_cookies = [token_cookie e ''auth_token'' accessToken 900,
                                          token_cookie e ''refresh_token'' refreshToken 604800]\<rparr>
               | (Inl x, _) \<Rightarrow> Throw x
               | (_, Inl y) \<Rightarrow> Throw y))"
  using assms
  by (auto simp: POST_try_def step response_defs split: sum.splits)

lemma opt_chain_defined: "opt_chain u k = Inr (JStr s) \<Longrightarrow> u \<noteq> JUndefined"
  by (cases u) simp_all

text \<open>
  C7, as the code has it. When the login request has a JSON body, the upstream login call
  answers with a success and \<^verbatim>\<open>data.user?.role\<close> is \<^verbatim>\<open>"admin"\<close>, the handler returns
  status 200 and sets \<^verbatim>\<open>auth_token\<close> (maxAge 900) and \<^verbatim>\<open>refresh_token\<close> (maxAge 604800),
  both httpOnly, sameSite lax, secure in production, with the upstream tokens as values. Its
  JSON body carries \<^verbatim>\<open>success: true\<close>, the upstream \<^verbatim>\<open>user\<close>, and each of \<^verbatim>\<open>accessToken\<close>
  and \<^verbatim>\<open>refreshToken\<close> that the upstream body has: a token the upstream body lacks is
  \<^verbatim>\<open>undefined\<close> in the handler and left out of the serialised body.
\<close>

theorem C7_admin_login:
  assumes "req_json request = Inr reqBody"
    and "destructure reqBody ''identifier'' = Inr identifier"
    and "destructure reqBody ''password'' = Inr pass"
    and "destructure reqBody ''remember'' = Inr rememberMe"
    and "fetch w (login_request e identifier pass rememberMe) = Inr apiResponse"
    and "ok apiResponse"
    and "res_json apiResponse = Inr data"
    and "get_prop data ''user'' = Inr user"
    and "opt_chain user ''role'' = Inr (JStr ''admin'')"
    and "get_prop data ''accessToken'' = Inr accessToken"
    and "get_prop data ''refreshToken'' = Inr refreshToken"
  shows "fst (POST w e request) =
           Return \<lparr>kind = Json (JObj ([(''success'', JBool True), (''user'', serialise user)] @
                                       (if accessToken = JUndefined then []
                                        else [(''accessToken'', serialise accessToken)]) @
                                       (if refreshToken = JUndefined then []
                                        else [(''refreshToken'', serialise refreshToken)]))),
                   res_status = 200,
                   set_cookies =
                     [\<lparr>cname = ''auth_token'', cvalue = accessToken, httpOnly = True,
                       secure = (NODE_ENV e = Some ''production''), sameSite = ''lax'',
                       maxAge = 900, path = ''/''\<rparr>,
                      \<lparr>cname = ''refresh_token'', cvalue = refreshToken, httpOnly = True,
                       secure = (NODE_ENV e = Some ''production''), sameSite = ''lax'',
                       maxAge = 604800, path = ''/''\<rparr>]\<rparr>"
proof -
  from opt_chain_defined [OF assms(9)] have u: "user \<noteq> JUndefined" .
  from POST_try_upstream [OF assms(1-9)] assms(10,11) u
  have "fst (POST_try w e request) =
      Return \<lparr>kind = Json (JObj ([(''success'', JBool True), (''user'', serialise user)] @
                                  (if accessToken = JUndefined then []
                                   else [(''accessToken'', serialise accessToken)]) @
                                  (if refreshToken = JUndefined then []
                                   else [(''refreshToken'', serialise refreshToken)]))),
              res_status = 200,
              set_cookies = [token_cookie e ''auth_token'' accessToken 900,
                             token_cookie e ''refresh_token'' refreshToken 604800]\<rparr>"
    by simp
  then show ?thesis
    by (cases "POST_try w e request") (simp add: POST_def try_catch_simps token_cookie_def)
qed

text \<open>
  C8. When the login request has a JSON body, the upstream login call answers with a
  success and \<^verbatim>\<open>data.user?.role\<close> is not \<^verbatim>\<open>"admin"\<close>, the handler returns status 403
  with the body \<^verbatim>\<open>{ success: false, message }\<close> and sets no cookie.
\<close>

theorem C8_non_admin_login:
  assumes "req_json request = Inr reqBody"
    and "destructure reqBody ''identifier'' = Inr identifier"
    and "destructure reqBody ''password'' = Inr pass"
    and "destructure reqBody ''remember'' = Inr rememberMe"
    and "fetch w (login_request e identifier pass rememberMe) = Inr apiResponse"
    and "ok apiResponse"
    and "res_json apiResponse = Inr data"
    and "get_prop data ''user'' = Inr user"
    and "opt_chain user ''role'' = Inr role"
    and "role \<noteq> JStr ''admin''"
  shows "fst (POST w e request) =
           Return \<lparr>kind = Json (JObj [(''success'', JBool False),
                                       (''message'', JStr ''Unauthorized: Admin access only'')]),
                   res_status = 403, set_cookies = []\<rparr>"
proof -
  from POST_try_upstream [OF assms(1-9)] assms(10)
  have "fst (POST_try w e request) =
      Return \<lparr>kind = Json (JObj [(''success'', JBool False),
                                  (''message'', JStr ''Unauthorized: Admin access only'')]),
              res_status = 403, set_cookies = []\<rparr>"
    by simp
  then show ?thesis
    by (cases "POST_try w e request") (simp add: POST_def try_catch_simps)
qed

lemma login_post_facts:
  "req_json (login_post who) = Inr (login_body who)"
  "destructure (login_body who) ''identifier'' = Inr (JStr who)"
  "destructure (login_body who) ''password'' = Inr (JStr ''pw'')"
  "destructure (login_body who) ''remember'' = Inr (JBool False)"
  by (simp_all add: login_post_def login_body_def)

lemma example_login_fetch:
  "fetch example_world (login_request example_env (JStr ''root@example.org'') (JStr ''pw'') (JBool False)) =
     Inr \<lparr>status = 200, res_json = Inr admin_login_data\<rparr>"
  "fetch example_world (login_request example_env (JStr ''ann@example.org'') (JStr ''pw'') (JBool False)) =
     Inr \<lparr>status = 200, res_json = Inr member_login_data\<rparr>"
  by (simp_all add: example_defs request_defs admin_login_data_def member_login_data_def)

theorem C7_witness:
  "req_json (login_post ''root@example.org'') = Inr (login_body ''root@example.org'')
   \<and> fetch example_world
        (login_request example_env (JStr ''root@example.org'') (JStr ''pw'') (JBool False)) =
       Inr \<lparr>status = 200, res_json = Inr admin_login_data\<rparr>
   \<and> get_prop admin_login_data ''user'' = Inr admin_user
   \<and> opt_chain admin_user ''role'' = Inr (JStr ''admin'')
   \<and> fst (POST example_world example_env (login_post ''root@example.org'')) =
       Return \<lparr>kind = Json (JObj [(''success'', JBool True),
                                   (''user'', JObj [(''id'', JNum 1), (''role'', JStr ''admin'')]),
                                   (''accessToken'', JStr ''at-1''), (''refreshToken'', JStr ''rt-1'')]),
               res_status = 200,
               set_cookies =
                 [\<lparr>cname = ''auth_token'', cvalue = JStr ''at-1'', httpOnly = True, secure = True,
                   sameSite = ''lax'', maxAge = 900, path = ''/''\<rparr>,
                  \<lparr>cname = ''refresh_token'', cvalue = JStr ''rt-1'', httpOnly = True, secure = True,
                   sameSite = ''lax'', maxAge = 604800, path = ''/''\<rparr>]\<rparr>"
proof -
  let ?r = "\<lparr>status = 200, res_json = Inr admin_login_data\<rparr>"
  have h6: "ok ?r" by (simp add: ok_def)
  have h7: "res_json ?r = Inr admin_login_data" by simp
  have h8: "get_prop admin_login_data ''user'' = Inr admin_user"
    and h10: "get_prop admin_login_data ''accessToken'' = Inr (JStr ''at-1'')"
    and h11: "get_prop admin_login_data ''refreshToken'' = Inr (JStr ''rt-1'')"
    by (simp_all add: admin_login_data_def)
  have h9: "opt_chain admin_user ''role'' = Inr (JStr ''admin'')"
    by (simp add: admin_user_def)
  have p: "NODE_ENV example_env = Some ''production''" by (simp add: example_env_def)
  have b: "[(''success'', JBool True), (''user'', serialise admin_user)] @
           (if JStr ''at-1'' = JUndefined then [] else [(''accessToken'', serialise (JStr ''at-1''))]) @
           (if JStr ''rt-1'' = JUndefined then [] else [(''refreshToken'', serialise (JStr ''rt-1''))]) =
           [(''success'', JBool True), (''user'', JObj [(''id'', JNum 1), (''role'', JStr ''admin'')]),
            (''accessToken'', JStr ''at-1''), (''refreshToken'', JStr ''rt-1'')]"
    by (simp add: admin_user_def)
  note c = C7_admin_login [OF login_post_facts example_login_fetch(1) h6 h7 h8 h9 h10 h11,
      unfolded p b]
  from login_post_facts(1) example_login_fetch(1) h8 h9 c show ?thesis by simp
qed

theorem C7_counterexample:
  "req_json (login_post ''bare@example.org'') = Inr (login_body ''bare@example.org'')
   \<and> fetch example_world
        (login_request example_env (JStr ''bare@example.org'') (JStr ''pw'') (JBool False)) =
       Inr \<lparr>status = 200, res_json = Inr bare_login_data\<rparr>
   \<and> get_prop bare_login_data ''user'' = Inr admin_user
   \<and> opt_chain admin_user ''role'' = Inr (JStr ''admin'')
   \<and> fst (POST example_world example_env (login_post ''bare@example.org'')) =
       Return \<lparr>kind = Json (JObj [(''success'', JBool True),
                                   (''user'', JObj [(''id'', JNum 1), (''role'', JStr ''admin'')])]),
               res_status = 200,
               set_cookies =
                 [\<lparr>cname = ''auth_token'', cvalue = JUndefined, httpOnly = True, secure = True,
                   sameSite = ''lax'', maxAge = 900, path = ''/''\<rparr>,
                  \<lparr>cname = ''refresh_token'', cvalue = JUndefined, httpOnly = True, secure = True,
                   sameSite = ''lax'', maxAge = 604800, path = ''/''\<rparr>]\<rparr>"
  by (simp add: POST_def POST_try_def step response_defs request_defs example_defs bare_login_data_def)

theorem C8_witness:
  "req_json (login_post ''ann@example.org'') = Inr (login_body ''ann@example.org'')
   \<and> fetch example_world
        (login_request example_env (JStr ''ann@example.org'') (JStr ''pw'') (JBool False)) =
       Inr \<lparr>status = 200, res_json = Inr member_login_data\<rparr>
   \<and> get_prop member_login_data ''user'' = Inr (JObj [(''id'', JNum 2), (''role'', JStr ''member'')])
   \<and> opt_chain (JObj [(''id'', JNum 2), (''role'', JStr ''member'')]) ''role'' = Inr (JStr ''member'')
   \<and> fst (POST example_world example_env (login_post ''ann@example.org'')) =
       Return \<lparr>kind = Json (JObj [(''success'', JBool False),
                                   (''message'', JStr ''Unauthorized: Admin access only'')]),
               res_status = 403, set_cookies = []\<rparr>"
proof -
  let ?r = "\<lparr>status = 200, res_json = Inr member_login_data\<rparr>"
  let ?u = "JObj [(''id'', JNum 2), (''role'', JStr ''member'')]"
  have h6: "ok ?r" by (simp add: ok_def)
  have h7: "res_json ?r = Inr member_login_data" by simp
  have h8: "get_prop member_login_data ''user'' = Inr ?u"
    by (simp add: member_login_data_def)
  have h9: "opt_chain ?u ''role'' = Inr (JStr ''member'')" by simp
  have h10: "JStr ''member'' \<noteq> JStr ''admin''" by simp
  note c = C8_non_admin_login [OF login_post_facts example_login_fetch(2) h6 h7 h8 h9 h10]
  from login_post_facts(1) example_login_fetch(2) h8 h9 c show ?thesis by simp
qed

section \<open>Properties of the help-requests view\<close>

lemma has_number_get_prop: "has_number k v \<Longrightarrow> \<exists>n. get_prop v k = Inr (JNum n)"
  by (cases v) (auto split: option.splits js.splits)

lemma map_prop_numbers:
  "\<forall>a\<in>set xs. has_number k a \<Longrightarrow>
   \<exists>ids. map_prop k xs = Inr ids \<and> map Inr ids = map (\<lambda>a. get_prop a k) xs"
proof (induction xs)
  case Nil
  then show ?case by simp
next
  case (Cons x xs)
  then obtain ids where ids: "map_prop k xs = Inr ids" "map Inr ids = map (\<lambda>a. get_prop a k) xs"
    by auto
  from Cons.prems obtain n where "get_prop x k = Inr (JNum n)"
    using has_number_get_prop by fastforce
  with ids show ?case by simp
qed

lemma set_has_number: "set_has ids (JNum n) = (JNum n \<in> set ids)"
proof (induction ids)
  case Nil
  then show ?case by (simp add: set_has_def)
next
  case (Cons x ids)
  have "same_value_zero x (JNum n) = (x = JNum n)" by (cases x) simp_all
  with Cons show ?case by (auto simp: set_has_def)
qed

lemma filter_jobs_numbers:
  "\<forall>j\<in>set js. has_number ''id'' j \<Longrightarrow>
   filter_jobs ids js = Inr (filter (\<lambda>j. get_prop j ''id'' \<notin> Inr ` set ids) js)"
proof (induction js)
  case Nil
  then show ?case by simp
next
  case (Cons j js)
  from Cons.prems obtain n where n: "get_prop j ''id'' = Inr (JNum n)"
    using has_number_get_prop by fastforce
  from Cons have "filter_jobs ids js = Inr (filter (\<lambda>j. get_prop j ''id'' \<notin> Inr ` set ids) js)"
    by simp
  with n show ?case by (auto simp: set_has_number)
qed

lemma fetchAll_try_succeeds:
  assumes "fst (client_token e b) = Normal token"
    and "fetch w (bearer_get (client_base e @ ''/api/admin/jobs'') token) = Inr jobsRes"
    and "fetch w (bearer_get (client_base e @ ''/api/jobapp'') token) = Inr appsRes"
    and "ok jobsRes" and "ok appsRes"
    and "res_json jobsRes = Inr jobsData" and "res_json appsRes = Inr appsData"
    and "get_prop jobsData ''jobs'' = Inr jobsField"
    and "get_prop appsData ''applications'' = Inr appsField"
    and "\<forall>j\<in>set (array_or_empty jobsField). has_number ''id'' j"
    and "\<forall>a\<in>set (array_or_empty appsField). has_number ''job_id'' a"
  shows "fst (fetchAll_try w e b appsFirst) =
           Normal (filter (\<lambda>j. get_prop j ''id'' \<notin>
                              set (map (\<lambda>a. get_prop a ''job_id'') (array_or_empty appsField)))
                     (array_or_empty jobsField),
                   array_or_empty appsField)"
proof -
  from map_prop_numbers [OF assms(11)] obtain ids
    where ids: "map_prop ''job_id'' (array_or_empty appsField) = Inr ids"
      and m: "map Inr ids = map (\<lambda>a. get_prop a ''job_id'') (array_or_empty appsField)"
    by blast
  have s: "Inr ` set ids = set (map (\<lambda>a. get_prop a ''job_id'') (array_or_empty appsField))"
    using arg_cong [OF m, of set] by simp
  note f = filter_jobs_numbers [OF assms(10), of ids, unfolded s]
  obtain tes where t: "client_token e b = (Normal token, tes)"
    using assms(1) by (cases "client_token e b") simp
  show ?thesis
    using assms(2-9) ids f
    by (simp add: fetchAll_try_def t fetch_both_def step Let_def)
qed

text \<open>
  C10. After the initial fetch of the help-requests view succeeded (both calls resolve with
  a success, both bodies parse, jobs and applications are objects with numeric \<^verbatim>\<open>id\<close> and
  \<^verbatim>\<open>job_id\<close> as their interfaces declare, the component is still mounted), the jobs in the
  state are exactly the fetched jobs whose id is the \<^verbatim>\<open>job_id\<close> of no fetched application,
  in the fetched order, and the applications in the state are all the fetched ones; so no
  job of the jobs table has an application.
\<close>

theorem C10_jobs_without_applications:
  assumes "fst (client_token e b) = Normal token"
    and "fetch w (bearer_get (client_base e @ ''/api/admin/jobs'') token) = Inr jobsRes"
    and "fetch w (bearer_get (client_base e @ ''/api/jobapp'') token) = Inr appsRes"
    and "ok jobsRes" and "ok appsRes"
    and "res_json jobsRes = Inr jobsData" and "res_json appsRes = Inr appsData"
    and "get_prop jobsData ''jobs'' = Inr jobsField"
    and "get_prop appsData ''applications'' = Inr appsField"
    and "\<forall>j\<in>set (array_or_empty jobsField). has_number ''id'' j"
    and "\<forall>a\<in>set (array_or_empty appsField). has_number ''job_id'' a"
  shows "jobs (fst (fetchAll w e b appsFirst True s)) =
           filter (\<lambda>j. get_prop j ''id'' \<notin>
                         set (map (\<lambda>a. get_prop a ''job_id'') (array_or_empty appsField)))
             (array_or_empty jobsField)
         \<and> applications (fst (fetchAll w e b appsFirst True s)) = array_or_empty appsField
         \<and> (\<forall>j\<in>set (jobs (fst (fetchAll w e b appsFirst True s))).
              \<forall>a\<in>set (applications (fst (fetchAll w e b appsFirst True s))).
                get_prop a ''job_id'' \<noteq> get_prop j ''id'')
         \<and> jobsError (fst (fetchAll w e b appsFirst True s)) = None
         \<and> appsError (fst (fetchAll w e b appsFirst True s)) = None
         \<and> \<not> isLoadingJobs (fst (fetchAll w e b appsFirst True s))
         \<and> \<not> isLoadingApps (fst (fetchAll w e b appsFirst True s))"
proof -
  from fetchAll_try_succeeds [OF assms, of appsFirst]
  obtain es where "fetchAll_try w e b appsFirst =
      (Normal (filter (\<lambda>j. get_prop j ''id'' \<notin>
                         set (map (\<lambda>a. get_prop a ''job_id'') (array_or_empty appsField)))
                 (array_or_empty jobsField),
               array_or_empty appsField), es)"
    by (cases "fetchAll_try w e b appsFirst") simp
  then have j: "jobs (fst (fetchAll w e b appsFirst True s)) =
        filter (\<lambda>j. get_prop j ''id'' \<notin>
                      set (map (\<lambda>a. get_prop a ''job_id'') (array_or_empty appsField)))
          (array_or_empty jobsField)"
    and a: "applications (fst (fetchAll w e b appsFirst True s)) = array_or_empty appsField"
    and r: "jobsError (fst (fetchAll w e b appsFirst True s)) = None"
      "appsError (fst (fetchAll w e b appsFirst True s)) = None"
      "\<not> isLoadingJobs (fst (fetchAll w e b appsFirst True s))"
      "\<not> isLoadingApps (fst (fetchAll w e b appsFirst True s))"
    by (simp_all add: fetchAll_def Let_def)
  have d: "\<forall>j\<in>set (jobs (fst (fetchAll w e b appsFirst True s))).
          \<forall>a\<in>set (applications (fst (fetchAll w e b appsFirst True s))).
            get_prop a ''job_id'' \<noteq> get_prop j ''id''"
    unfolding j a
  proof (intro ballI)
    fix j a
    assume "j \<in> set (filter (\<lambda>j. get_prop j ''id'' \<notin>
                      set (map (\<lambda>a. get_prop a ''job_id'') (array_or_empty appsField)))
          (array_or_empty jobsField))"
      and m: "a \<in> set (array_or_empty appsField)"
    then have n: "get_prop j ''id'' \<notin> (\<lambda>a. get_prop a ''job_id'') ` set (array_or_empty appsField)"
      by simp
    show "get_prop a ''job_id'' \<noteq> get_prop j ''id''"
    proof
      assume eq: "get_prop a ''job_id'' = get_prop j ''id''"
      from m have "get_prop a ''job_id'' \<in> (\<lambda>a. get_prop a ''job_id'') ` set (array_or_empty appsField)"
        by (rule imageI)
      with eq n show False by simp
    qed
  qed
  from j a d r show ?thesis by blast
qed

theorem C10_witness:
  "fst (client_token example_env example_browser) = Normal (Some ''at-1'')
   \<and> fetch example_world (bearer_get (client_base example_env @ ''/api/admin/jobs'') (Some ''at-1'')) =
       Inr \<lparr>status = 200, res_json = Inr jobs_body\<rparr>
   \<and> fetch example_world (bearer_get (client_base example_env @ ''/api/jobapp'') (Some ''at-1'')) =
       Inr \<lparr>status = 200, res_json = Inr apps_body\<rparr>
   \<and> get_prop jobs_body ''jobs'' = Inr (JArr [example_job 1, example_job 2, example_job 3])
   \<and> get_prop apps_body ''applications'' = Inr (JArr [example_application 7 2])
   \<and> jobs (fst (fetchAll example_world example_env example_browser False True empty_jobs_state)) =
       [example_job 1, example_job 3]
   \<and> applications (fst (fetchAll example_world example_env example_browser False True empty_jobs_state)) =
       [example_application 7 2]"
proof -
  let ?jr = "\<lparr>status = 200, res_json = Inr jobs_body\<rparr>"
  let ?ar = "\<lparr>status = 200, res_json = Inr apps_body\<rparr>"
  let ?jobs = "JArr [example_job 1, example_job 2, example_job 3]"
  let ?apps = "JArr [example_application 7 2]"
  have h1: "fst (client_token example_env example_browser) = Normal (Some ''at-1'')"
    by (simp add: client_token_def example_browser_def)
  have h2: "fetch example_world (bearer_get (client_base example_env @ ''/api/admin/jobs'') (Some ''at-1'')) = Inr ?jr"
    and h3: "fetch example_world (bearer_get (client_base example_env @ ''/api/jobapp'') (Some ''at-1'')) = Inr ?ar"
    by (simp_all add: example_world_def example_fetch_def json_response_def bearer_get_def
        client_base_def example_env_def or_default_def jobs_body_def apps_body_def)
  have h4: "ok ?jr" and h5: "ok ?ar" by (simp_all add: ok_def)
  have h6: "res_json ?jr = Inr jobs_body" and h7: "res_json ?ar = Inr apps_body" by simp_all
  have h8: "get_prop jobs_body ''jobs'' = Inr ?jobs"
    and h9: "get_prop apps_body ''applications'' = Inr ?apps"
    by (simp_all add: jobs_body_def apps_body_def)
  have h10: "\<forall>j\<in>set (array_or_empty ?jobs). has_number ''id'' j"
    and h11: "\<forall>a\<in>set (array_or_empty ?apps). has_number ''job_id'' a"
    by (simp_all add: example_job_def example_application_def)
  have f: "filter (\<lambda>j. get_prop j ''id'' \<notin> set (map (\<lambda>a. get_prop a ''job_id'') (array_or_empty ?apps)))
             (array_or_empty ?jobs) = [example_job 1, example_job 3]"
    by (simp add: example_job_def example_application_def)
  have g: "array_or_empty ?apps = [example_application 7 2]" by simp
  note c = C10_jobs_without_applications [OF h1 h2 h3 h4 h5 h6 h7 h8 h9 h10 h11,
      of False empty_jobs_state]
  from c [THEN conjunct1] f
  have j: "jobs (fst (fetchAll example_world example_env example_browser False True empty_jobs_state)) =
          [example_job 1, example_job 3]"
    by (rule trans)
  from c [THEN conjunct2, THEN conjunct1] g
  have a: "applications (fst (fetchAll example_world example_env example_browser False True empty_jobs_state)) =
          [example_application 7 2]"
    by (rule trans)
  from h1 h2 h3 h8 h9 j a show ?thesis by blast
qed

section \<open>Who reads and who writes the token cookies\<close>

lemma cookie_free_append: "cookie_free (es @ es') = (cookie_free es \<and> cookie_free es')"
  by (simp add: cookie_free_def)

lemma cookie_free_reads_writes:
  "cookie_free es \<Longrightarrow> cookie_reads es = [] \<and> cookie_writes es = []"
proof (induction es)
  case Nil
  then show ?case by (simp add: cookie_reads_def cookie_writes_def)
next
  case (Cons x es)
  then have "\<not> touches_cookie x" and "cookie_reads es = []" and "cookie_writes es = []"
    by (simp_all add: cookie_free_def)
  then show ?case
    by (cases x) (simp_all add: cookie_reads_def cookie_writes_def)
qed

lemma cookie_free_bind:
  assumes "cookie_free (snd m)" and "\<And>a. cookie_free (snd (f a))"
  shows "cookie_free (snd (io_bind m f))"
proof (cases m)
  case (Pair c es)
  with assms(1) have es: "cookie_free es" by simp
  show ?thesis
  proof (cases c)
    case (Normal a)
    obtain c' es' where f: "f a = (c', es')" by (cases "f a")
    with assms(2) [of a] have "cookie_free es'" by simp
    with Pair Normal f es show ?thesis
      by (simp add: io_bind_simps cookie_free_append)
  next
    case (Return r)
    with Pair es show ?thesis by (simp add: io_bind_simps)
  next
    case (Throw x)
    with Pair es show ?thesis by (simp add: io_bind_simps)
  qed
qed

lemma cookie_free_try_catch:
  assumes "cookie_free (snd m)" and "\<And>x. cookie_free (snd (h x))"
  shows "cookie_free (snd (try_catch m h))"
proof (cases m)
  case (Pair c es)
  with assms(1) have es: "cookie_free es" by simp
  show ?thesis
  proof (cases c)
    case (Throw x)
    obtain c' es' where h: "h x = (c', es')" by (cases "h x")
    with assms(2) [of x] have "cookie_free es'" by simp
    with Pair Throw h es show ?thesis
      by (simp add: try_catch_simps cookie_free_append)
  next
    case (Normal a)
    with Pair es show ?thesis by (simp add: try_catch_simps)
  next
    case (Return r)
    with Pair es show ?thesis by (simp add: try_catch_simps)
  qed
qed

lemma cookie_free_leaves:
  "cookie_free (snd (lift r))"
  "cookie_free (snd (ret rs))"
  "cookie_free (snd skip)"
  "cookie_free (snd (throw x))"
  "cookie_free (snd (json_return j st))"
  "cookie_free (snd (await_fetch w rq))"
  "cookie_free (snd (client_token e b))"
  "cookie_free (snd (fetch_both w af rq rq'))"
  "cookie_free (snd (emit (ConsoleError s)))"
  "cookie_free (snd (emit (Toast t)))"
  by (simp_all add: io_defs json_return_def client_token_def fetch_both_def cookie_free_def
      split: sum.splits)

lemma cookie_free_if:
  assumes "P \<Longrightarrow> cookie_free (snd m)" and "\<not> P \<Longrightarrow> cookie_free (snd m')"
  shows "cookie_free (snd (if P then m else m'))"
  using assms by simp

lemma cookie_free_case_prod:
  assumes "\<And>x y. cookie_free (snd (f x y))"
  shows "cookie_free (snd (case p of (x, y) \<Rightarrow> f x y))"
  using assms by (cases p) simp

lemma cookie_free_pure: "cookie_free (snd (c, []))"
  by (simp add: cookie_free_def)

lemmas cookie_free_rules = cookie_free_bind cookie_free_try_catch cookie_free_if
  cookie_free_case_prod cookie_free_leaves cookie_free_pure

lemma POST_try_cookie_free: "cookie_free (snd (POST_try w e rq))"
  unfolding POST_try_def Let_def
  by (intro cookie_free_rules)

lemma POST_cookie_free: "cookie_free (snd (POST w e rq))"
  unfolding POST_def
  by (intro cookie_free_rules POST_try_cookie_free)

lemma fetchAll_try_cookie_free: "cookie_free (snd (fetchAll_try w e b af))"
  unfolding fetchAll_try_def Let_def
  by (intro cookie_free_rules)

lemma loadSkilledUsers_try_cookie_free: "cookie_free (snd (loadSkilledUsers_try w e b jobId))"
  unfolding loadSkilledUsers_try_def Let_def
  by (intro cookie_free_rules)

lemma loadData_try_cookie_free: "cookie_free (snd (loadData_try w e b showToast))"
  unfolding loadData_try_def Let_def
  by (intro cookie_free_rules)

lemma openDetails_try_cookie_free: "cookie_free (snd (openDetails_try w e b idText))"
  unfolding openDetails_try_def Let_def
  by (intro cookie_free_rules)

lemma fetchAll_cookie_free: "cookie_free (snd (fetchAll w e b af mounted s))"
  using fetchAll_try_cookie_free [of w e b af]
  by (auto simp: fetchAll_def Let_def split: prod.splits)

lemma loadSkilledUsers_cookie_free: "cookie_free (snd (loadSkilledUsers w e b jobId s))"
  using loadSkilledUsers_try_cookie_free [of w e b jobId]
  by (auto simp: loadSkilledUsers_def Let_def split: prod.splits)

lemma loadData_cookie_free: "cookie_free (snd (loadData w e b showToast s))"
  using loadData_try_cookie_free [of w e b showToast]
  by (auto simp: loadData_def Let_def cookie_free_def split: prod.splits completion.splits)

lemma openDetails_cookie_free: "cookie_free (snd (openDetails w e b idText s))"
  using openDetails_try_cookie_free [of w e b idText]
  by (auto simp: openDetails_def Let_def cookie_free_def split: prod.splits completion.splits)

lemma handleLogin_cookie_free: "cookie_free (snd (snd (handleLogin w s)))"
  by (simp add: handleLogin_def Let_def cookie_free_def split: sum.splits)

lemma POST_ignores_cookies: "POST w e (rq\<lparr>cookies := cs\<rparr>) = POST w e rq"
  by (simp add: POST_def POST_try_def)

lemma fst_io_bind:
  "fst (io_bind m f) =
     (case fst m of Normal a \<Rightarrow> fst (f a) | Return r \<Rightarrow> Return r | Throw x \<Rightarrow> Throw x)"
  by (cases m; cases "fst m") (auto simp: io_bind_simps split: prod.splits)

lemma fst_leaves:
  "fst (lift v) = (case v of Inl x \<Rightarrow> Throw x | Inr a \<Rightarrow> Normal a)"
  "fst (await_fetch w q) = (case fetch w q of Inl x \<Rightarrow> Throw x | Inr a \<Rightarrow> Normal a)"
  "fst (ret rs) = Return rs"
  "fst (json_return j st) = (case NextResponse_json j st of Inl x \<Rightarrow> Throw x | Inr a \<Rightarrow> Return a)"
  by (simp_all add: io_defs json_return_def split: sum.splits)

lemma POST_try_writes:
  assumes "fst (POST_try w e rq) = Return r"
  shows "set_cookies r = [] \<or>
         (\<exists>reqBody identifier pass rememberMe apiResponse data user accessToken refreshToken.
            req_json rq = Inr reqBody
            \<and> destructure reqBody ''identifier'' = Inr identifier
            \<and> destructure reqBody ''password'' = Inr pass
            \<and> destructure reqBody ''remember'' = Inr rememberMe
            \<and> fetch w (login_request e identifier pass rememberMe) = Inr apiResponse
            \<and> ok apiResponse
            \<and> res_json apiResponse = Inr data
            \<and> get_prop data ''user'' = Inr user
            \<and> opt_chain user ''role'' = Inr (JStr ''admin'')
            \<and> get_prop data ''accessToken'' = Inr accessToken
            \<and> get_prop data ''refreshToken'' = Inr refreshToken
            \<and> r = \<lparr>kind = Json (serialise
                                     (JObj [(''success'', JBool True), (''user'', user),
                                            (''accessToken'', accessToken),
                                            (''refreshToken'', refreshToken)])),
                     res_status = 200,
                     set_cookies = [token_cookie e ''auth_token'' accessToken 900,
                                    token_cookie e ''refresh_token'' refreshToken 604800]\<rparr>)"
  using assms
  by (auto simp: POST_try_def fst_io_bind fst_leaves NextResponse_json_def cookies_set_def
      token_cookie_def Let_def split: sum.splits if_splits)

lemma POST_writes:
  assumes "fst (POST w e rq) = Return r"
  shows "set_cookies r = [] \<or>
         (\<exists>reqBody identifier pass rememberMe apiResponse data user accessToken refreshToken.
            req_json rq = Inr reqBody
            \<and> destructure reqBody ''identifier'' = Inr identifier
            \<and> destructure reqBody ''password'' = Inr pass
            \<and> destructure reqBody ''remember'' = Inr rememberMe
            \<and> fetch w (login_request e identifier pass rememberMe) = Inr apiResponse
            \<and> ok apiResponse
            \<and> res_json apiResponse = Inr data
            \<and> get_prop data ''user'' = Inr user
            \<and> opt_chain user ''role'' = Inr (JStr ''admin'')
            \<and> get_prop data ''accessToken'' = Inr accessToken
            \<and> get_prop data ''refreshToken'' = Inr refreshToken
            \<and> r = \<lparr>kind = Json (serialise
                                     (JObj [(''success'', JBool True), (''user'', user),
                                            (''accessToken'', accessToken),
                                            (''refreshToken'', refreshToken)])),
                     res_status = 200,
                     set_cookies = [token_cookie e ''auth_token'' accessToken 900,
                                    token_cookie e ''refresh_token'' refreshToken 604800]\<rparr>)"
proof (cases "fst (POST_try w e rq)")
  case (Normal u)
  with assms show ?thesis
    by (cases "POST_try w e rq") (simp add: POST_def try_catch_simps)
next
  case (Return r')
  with assms have "r' = r"
    by (cases "POST_try w e rq") (simp add: POST_def try_catch_simps)
  with Return have "fst (POST_try w e rq) = Return r" by simp
  then show ?thesis by (rule POST_try_writes)
next
  case (Throw x)
  with assms have "set_cookies r = []"
    by (cases "POST_try w e rq")
      (auto simp: POST_def try_catch_simps step json_return_def NextResponse_json_def)
  then show ?thesis by simp
qed

text \<open>
  C6, as the code has it. Outside the Session Guard no operation reads the \<^verbatim>\<open>auth_token\<close>
  or the \<^verbatim>\<open>refresh_token\<close> cookie: the login handler \<^verbatim>\<open>POST\<close> answers the same whatever
  cookies the request carries, and neither it nor the client operations that do input and
  output (\<^verbatim>\<open>handleLogin\<close>, \<^verbatim>\<open>fetchAll\<close>, \<^verbatim>\<open>loadSkilledUsers\<close>, \<^verbatim>\<open>loadData\<close>,
  \<^verbatim>\<open>openDetails\<close>, which take their bearer token from \<^verbatim>\<open>localStorage\<close>) read a cookie.
  Outside the guard the two cookies are written by the login handler alone, in the response
  it returns: the client operations write no cookie and return no response, and a response
  of the handler that sets a cookie is its 200 answer to a request whose body parsed and
  whose upstream login call answered with a success and a user of role \<^verbatim>\<open>"admin"\<close>; it
  sets exactly the two cookies, with the upstream tokens. Every other response of the
  handler sets no cookie.
\<close>

theorem C6_token_cookies_outside_guard:
  "POST w e (rq\<lparr>cookies := cs\<rparr>) = POST w e rq
   \<and> cookie_reads (snd (POST w e rq)) = []
   \<and> cookie_writes (snd (POST w e rq)) = []
   \<and> (\<forall>r. fst (POST w e rq) = Return r \<longrightarrow>
         set_cookies r = [] \<or>
         (\<exists>reqBody identifier pass rememberMe apiResponse data user accessToken refreshToken.
            req_json rq = Inr reqBody
            \<and> destructure reqBody ''identifier'' = Inr identifier
            \<and> destructure reqBody ''password'' = Inr pass
            \<and> destructure reqBody ''remember'' = Inr rememberMe
            \<and> fetch w (login_request e identifier pass rememberMe) = Inr apiResponse
            \<and> ok apiResponse
            \<and> res_json apiResponse = Inr data
            \<and> get_prop data ''user'' = Inr user
            \<and> opt_chain user ''role'' = Inr (JStr ''admin'')
            \<and> get_prop data ''accessToken'' = Inr accessToken
            \<and> get_prop data ''refreshToken'' = Inr refreshToken
            \<and> r = \<lparr>kind = Json (serialise
                                     (JObj [(''success'', JBool True), (''user'', user),
                                            (''accessToken'', accessToken),
                                            (''refreshToken'', refreshToken)])),
                     res_status = 200,
                     set_cookies = [token_cookie e ''auth_token'' accessToken 900,
                                    token_cookie e ''refresh_token'' refreshToken 604800]\<rparr>))
   \<and> cookie_reads (snd (snd (handleLogin w ls))) = []
   \<and> cookie_writes (snd (snd (handleLogin w ls))) = []
   \<and> cookie_reads (snd (fetchAll w e b appsFirst mounted js)) = []
   \<and> cookie_writes (snd (fetchAll w e b appsFirst mounted js)) = []
   \<and> cookie_reads (snd (loadSkilledUsers w e b jobId ss)) = []
   \<and> cookie_writes (snd (loadSkilledUsers w e b jobId ss)) = []
   \<and> cookie_reads (snd (loadData w e b showToast vs)) = []
   \<and> cookie_writes (snd (loadData w e b showToast vs)) = []
   \<and> cookie_reads (snd (openDetails w e b idText vs)) = []
   \<and> cookie_writes (snd (openDetails w e b idText vs)) = []"
proof (intro conjI allI impI)
  show "POST w e (rq\<lparr>cookies := cs\<rparr>) = POST w e rq"
    by (rule POST_ignores_cookies)
  show "cookie_reads (snd (POST w e rq)) = []"
    and "cookie_writes (snd (POST w e rq)) = []"
    using cookie_free_reads_writes [OF POST_cookie_free] by simp_all
  show "cookie_reads (snd (snd (handleLogin w ls))) = []"
    and "cookie_writes (snd (snd (handleLogin w ls))) = []"
    using cookie_free_reads_writes [OF handleLogin_cookie_free] by simp_all
  show "cookie_reads (snd (fetchAll w e b appsFirst mounted js)) = []"
    and "cookie_writes (snd (fetchAll w e b appsFirst mounted js)) = []"
    using cookie_free_reads_writes [OF fetchAll_cookie_free] by simp_all
  show "cookie_reads (snd (loadSkilledUsers w e b jobId ss)) = []"
    and "cookie_writes (snd (loadSkilledUsers w e b jobId ss)) = []"
    using cookie_free_reads_writes [OF loadSkilledUsers_cookie_free] by simp_all
  show "cookie_reads (snd (loadData w e b showToast vs)) = []"
    and "cookie_writes (snd (loadData w e b showToast vs)) = []"
    using cookie_free_reads_writes [OF loadData_cookie_free] by simp_all
  show "cookie_reads (snd (openDetails w e b idText vs)) = []"
    and "cookie_writes (snd (openDetails w e b idText vs)) = []"
    using cookie_free_reads_writes [OF openDetails_cookie_free] by simp_all
next
  fix r
  assume "fst (POST w e rq) = Return r"
  then show "set_cookies r = [] \<or>
         (\<exists>reqBody identifier pass rememberMe apiResponse data user accessToken refreshToken.
            req_json rq = Inr reqBody
            \<and> destructure reqBody ''identifier'' = Inr identifier
            \<and> destructure reqBody ''password'' = Inr pass
            \<and> destructure reqBody ''remember'' = Inr rememberMe
            \<and> fetch w (login_request e identifier pass rememberMe) = Inr apiResponse
            \<and> ok apiResponse
            \<and> res_json apiResponse = Inr data
            \<and> get_prop data ''user'' = Inr user
            \<and> opt_chain user ''role'' = Inr (JStr ''admin'')
            \<and> get_prop data ''accessToken'' = Inr accessToken
            \<and> get_prop data ''refreshToken'' = Inr refreshToken
            \<and> r = \<lparr>kind = Json (serialise
                                     (JObj [(''success'', JBool True), (''user'', user),
                                            (''accessToken'', accessToken),
                                            (''refreshToken'', refreshToken)])),
                     res_status = 200,
                     set_cookies = [token_cookie e ''auth_token'' accessToken 900,
                                    token_cookie e ''refresh_token'' refreshToken 604800]\<rparr>)"
    by (rule POST_writes)
qed

theorem C6_witness:
  "fst (POST example_world dev_env (login_post ''ann@example.org'')) = Return member_response
   \<and> set_cookies member_response = []
   \<and> POST example_world dev_env ((login_post ''ann@example.org'')\<lparr>cookies := [''auth_token'' \<mapsto> ''admin-jwt'']\<rparr>) =
       POST example_world dev_env (login_post ''ann@example.org'')
   \<and> cookie_reads (snd (POST example_world dev_env (login_post ''ann@example.org''))) = []
   \<and> cookie_writes (snd (POST example_world dev_env (login_post ''ann@example.org''))) = []"
proof -
  have h: "fst (POST example_world dev_env (login_post ''ann@example.org'')) = Return member_response"
    by (simp add: POST_def POST_try_def step response_defs request_defs example_defs dev_env_def
        member_response_def)
  have n: "\<not> (\<exists>reqBody identifier pass rememberMe apiResponse data user accessToken refreshToken.
            req_json (login_post ''ann@example.org'') = Inr reqBody
            \<and> destructure reqBody ''identifier'' = Inr identifier
            \<and> destructure reqBody ''password'' = Inr pass
            \<and> destructure reqBody ''remember'' = Inr rememberMe
            \<and> fetch example_world (login_request dev_env identifier pass rememberMe) = Inr apiResponse
            \<and> ok apiResponse
            \<and> res_json apiResponse = Inr data
            \<and> get_prop data ''user'' = Inr user
            \<and> opt_chain user ''role'' = Inr (JStr ''admin'')
            \<and> get_prop data ''accessToken'' = Inr accessToken
            \<and> get_prop data ''refreshToken'' = Inr refreshToken
            \<and> member_response =
                \<lparr>kind = Json (serialise
                                (JObj [(''success'', JBool True), (''user'', user),
                                       (''accessToken'', accessToken),
                                       (''refreshToken'', refreshToken)])),
                  res_status = 200,
                  set_cookies = [token_cookie dev_env ''auth_token'' accessToken 900,
                                 token_cookie dev_env ''refresh_token'' refreshToken 604800]\<rparr>)"
    by (simp add: member_response_def)
  note c = C6_token_cookies_outside_guard [where w = example_world and e = dev_env
      and rq = "login_post ''ann@example.org''" and cs = "[''auth_token'' \<mapsto> ''admin-jwt'']"]
  from c [THEN conjunct2, THEN conjunct2, THEN conjunct2, THEN conjunct1, THEN spec, THEN mp, OF h] n
  have s: "set_cookies member_response = []" by blast
  from h s c [THEN conjunct1] c [THEN conjunct2, THEN conjunct1]
    c [THEN conjunct2, THEN conjunct2, THEN conjunct1]
  show ?thesis by (intro conjI)
qed

theorem C6_counterexample:
  "fst (POST example_world dev_env (login_post ''root@example.org'')) =
     Return \<lparr>kind = Json (JObj [(''success'', JBool True),
                                 (''user'', JObj [(''id'', JNum 1), (''role'', JStr ''admin'')]),
                                 (''accessToken'', JStr ''at-1''), (''refreshToken'', JStr ''rt-1'')]),
             res_status = 200,
             set_cookies =
               [\<lparr>cname = ''auth_token'', cvalue = JStr ''at-1'', httpOnly = True, secure = False,
                 sameSite = ''lax'', maxAge = 900, path = ''/''\<rparr>,
                \<lparr>cname = ''refresh_token'', cvalue = JStr ''rt-1'', httpOnly = True, secure = False,
                 sameSite = ''lax'', maxAge = 604800, path = ''/''\<rparr>]\<rparr>"
  by (simp add: POST_def POST_try_def step response_defs request_defs example_defs dev_env_def)

end
